theory Spec2Isabelle
  imports Complex_Main "HOL-Library.Word"
begin

section \<open>Machine types\<close>

text \<open>
  The header targets LP64 (README: 64bit Linux and macOS). \<open>mp_bitcnt_t\<close> is
  \<open>unsigned long\<close>, \<open>mp_exp_t\<close> is \<open>long\<close> and \<open>int\<close> has 32 bits. Words wrap
  as the C types do; a \<open>long\<close> is read with \<open>sint\<close>, and converting it to
  \<open>unsigned long\<close> keeps the bit pattern.
\<close>

type_synonym mp_bitcnt_t = "64 word"
type_synonym mp_exp_t = "64 word"
type_synonym c_int = "32 word"

text \<open>
  Only the finite literals \<open>0.0\<close>, \<open>0.25\<close>, \<open>1.0\<close>, \<open>2.0\<close> and \<open>4.0\<close> are ever
  passed as \<open>double\<close> by the code modelled here; they are exact rationals.
\<close>

type_synonym double = rat

section \<open>The numeric engine\<close>

text \<open>
  The wrapper forwards every numeric operation to GMP, which is not part of the
  repository. The engine is therefore a parameter of the model: a record of the
  \<open>mpf_*\<close> entry points the wrapper calls, over an arbitrary type \<open>'v\<close> of magnitudes.
  Each operation that writes a destination takes the precision of that destination,
  as GMP computes to the precision of the result variable.

  \<open>e_grant n\<close> is what \<open>mpf_get_prec\<close> reports after \<open>mpf_init2 (x, n)\<close> (and what
  \<open>mpf_get_default_prec\<close> reports after \<open>mpf_set_default_prec (n)\<close>): GMP documents
  both as setting the precision to \<^emph>\<open>at least\<close> \<open>n\<close> bits.
  \<open>e_set_str\<close> is \<open>None\<close> when \<open>mpf_set_str\<close> / \<open>mpf_init_set_str\<close> return non-zero.
\<close>

record 'v engine =
  e_grant :: "mp_bitcnt_t \<Rightarrow> mp_bitcnt_t"
  e_zero :: "'v"
  e_set :: "mp_bitcnt_t \<Rightarrow> 'v \<Rightarrow> 'v"
  e_set_d :: "mp_bitcnt_t \<Rightarrow> double \<Rightarrow> 'v"
  e_set_si :: "mp_bitcnt_t \<Rightarrow> int \<Rightarrow> 'v"
  e_set_ui :: "mp_bitcnt_t \<Rightarrow> nat \<Rightarrow> 'v"
  e_set_str :: "mp_bitcnt_t \<Rightarrow> string \<Rightarrow> int \<Rightarrow> 'v option"
  e_add :: "mp_bitcnt_t \<Rightarrow> 'v \<Rightarrow> 'v \<Rightarrow> 'v"
  e_sub :: "mp_bitcnt_t \<Rightarrow> 'v \<Rightarrow> 'v \<Rightarrow> 'v"
  e_mul :: "mp_bitcnt_t \<Rightarrow> 'v \<Rightarrow> 'v \<Rightarrow> 'v"
  e_div :: "mp_bitcnt_t \<Rightarrow> 'v \<Rightarrow> 'v \<Rightarrow> 'v"
  e_sqrt :: "mp_bitcnt_t \<Rightarrow> 'v \<Rightarrow> 'v"
  e_abs :: "mp_bitcnt_t \<Rightarrow> 'v \<Rightarrow> 'v"
  e_neg :: "mp_bitcnt_t \<Rightarrow> 'v \<Rightarrow> 'v"
  e_floor :: "mp_bitcnt_t \<Rightarrow> 'v \<Rightarrow> 'v"
  e_mul_2exp :: "mp_bitcnt_t \<Rightarrow> 'v \<Rightarrow> mp_bitcnt_t \<Rightarrow> 'v"
  e_div_2exp :: "mp_bitcnt_t \<Rightarrow> 'v \<Rightarrow> mp_bitcnt_t \<Rightarrow> 'v"
  e_cmp :: "'v \<Rightarrow> 'v \<Rightarrow> int"
  e_get_si :: "'v \<Rightarrow> mp_exp_t"
  e_get_d_2exp :: "'v \<Rightarrow> mp_exp_t"

text \<open>
  \<open>mpf_t\<close>: the precision the engine reports for the variable, and its magnitude.
  \<open>mpf_class\<close> has the single member \<open>mpf_t value\<close>, so the two are identified.
\<close>

record 'v mpf_t =
  mp_prec :: mp_bitcnt_t
  mp_val :: "'v"

type_synonym 'v mpf_class = "'v mpf_t"

subsection \<open>Engine entry points on variables\<close>

definition mpf_init2 :: "'v engine \<Rightarrow> mp_bitcnt_t \<Rightarrow> 'v mpf_t" where
  "mpf_init2 E n = \<lparr>mp_prec = e_grant E n, mp_val = e_zero E\<rparr>"

text \<open>\<open>mpf_init\<close> takes the current default precision \<open>dp\<close> (as \<open>mpf_get_default_prec\<close> reports it).\<close>

definition mpf_init :: "'v engine \<Rightarrow> mp_bitcnt_t \<Rightarrow> 'v mpf_t" where
  "mpf_init E dp = \<lparr>mp_prec = dp, mp_val = e_zero E\<rparr>"

definition mpf_get_prec :: "'v mpf_t \<Rightarrow> mp_bitcnt_t" where
  "mpf_get_prec x = mp_prec x"

definition mpf_set :: "'v engine \<Rightarrow> 'v mpf_t \<Rightarrow> 'v mpf_t \<Rightarrow> 'v mpf_t" where
  "mpf_set E rop op = rop\<lparr>mp_val := e_set E (mp_prec rop) (mp_val op)\<rparr>"

definition mpf_set_d :: "'v engine \<Rightarrow> 'v mpf_t \<Rightarrow> double \<Rightarrow> 'v mpf_t" where
  "mpf_set_d E rop d = rop\<lparr>mp_val := e_set_d E (mp_prec rop) d\<rparr>"

definition mpf_set_si :: "'v engine \<Rightarrow> 'v mpf_t \<Rightarrow> int \<Rightarrow> 'v mpf_t" where
  "mpf_set_si E rop i = rop\<lparr>mp_val := e_set_si E (mp_prec rop) i\<rparr>"

definition mpf_set_ui :: "'v engine \<Rightarrow> 'v mpf_t \<Rightarrow> nat \<Rightarrow> 'v mpf_t" where
  "mpf_set_ui E rop u = rop\<lparr>mp_val := e_set_ui E (mp_prec rop) u\<rparr>"

definition mpf_add :: "'v engine \<Rightarrow> 'v mpf_t \<Rightarrow> 'v mpf_t \<Rightarrow> 'v mpf_t \<Rightarrow> 'v mpf_t" where
  "mpf_add E rop op1 op2 = rop\<lparr>mp_val := e_add E (mp_prec rop) (mp_val op1) (mp_val op2)\<rparr>"

definition mpf_sub :: "'v engine \<Rightarrow> 'v mpf_t \<Rightarrow> 'v mpf_t \<Rightarrow> 'v mpf_t \<Rightarrow> 'v mpf_t" where
  "mpf_sub E rop op1 op2 = rop\<lparr>mp_val := e_sub E (mp_prec rop) (mp_val op1) (mp_val op2)\<rparr>"

definition mpf_mul :: "'v engine \<Rightarrow> 'v mpf_t \<Rightarrow> 'v mpf_t \<Rightarrow> 'v mpf_t \<Rightarrow> 'v mpf_t" where
  "mpf_mul E rop op1 op2 = rop\<lparr>mp_val := e_mul E (mp_prec rop) (mp_val op1) (mp_val op2)\<rparr>"

definition mpf_div :: "'v engine \<Rightarrow> 'v mpf_t \<Rightarrow> 'v mpf_t \<Rightarrow> 'v mpf_t \<Rightarrow> 'v mpf_t" where
  "mpf_div E rop op1 op2 = rop\<lparr>mp_val := e_div E (mp_prec rop) (mp_val op1) (mp_val op2)\<rparr>"

definition mpf_sqrt :: "'v engine \<Rightarrow> 'v mpf_t \<Rightarrow> 'v mpf_t \<Rightarrow> 'v mpf_t" where
  "mpf_sqrt E rop op = rop\<lparr>mp_val := e_sqrt E (mp_prec rop) (mp_val op)\<rparr>"

definition mpf_abs :: "'v engine \<Rightarrow> 'v mpf_t \<Rightarrow> 'v mpf_t \<Rightarrow> 'v mpf_t" where
  "mpf_abs E rop op = rop\<lparr>mp_val := e_abs E (mp_prec rop) (mp_val op)\<rparr>"

definition mpf_neg :: "'v engine \<Rightarrow> 'v mpf_t \<Rightarrow> 'v mpf_t \<Rightarrow> 'v mpf_t" where
  "mpf_neg E rop op = rop\<lparr>mp_val := e_neg E (mp_prec rop) (mp_val op)\<rparr>"

definition mpf_floor :: "'v engine \<Rightarrow> 'v mpf_t \<Rightarrow> 'v mpf_t \<Rightarrow> 'v mpf_t" where
  "mpf_floor E rop op = rop\<lparr>mp_val := e_floor E (mp_prec rop) (mp_val op)\<rparr>"

definition mpf_mul_2exp :: "'v engine \<Rightarrow> 'v mpf_t \<Rightarrow> 'v mpf_t \<Rightarrow> mp_bitcnt_t \<Rightarrow> 'v mpf_t" where
  "mpf_mul_2exp E rop op n = rop\<lparr>mp_val := e_mul_2exp E (mp_prec rop) (mp_val op) n\<rparr>"

definition mpf_div_2exp :: "'v engine \<Rightarrow> 'v mpf_t \<Rightarrow> 'v mpf_t \<Rightarrow> mp_bitcnt_t \<Rightarrow> 'v mpf_t" where
  "mpf_div_2exp E rop op n = rop\<lparr>mp_val := e_div_2exp E (mp_prec rop) (mp_val op) n\<rparr>"

definition mpf_cmp :: "'v engine \<Rightarrow> 'v mpf_t \<Rightarrow> 'v mpf_t \<Rightarrow> int" where
  "mpf_cmp E op1 op2 = e_cmp E (mp_val op1) (mp_val op2)"

definition mpf_get_si :: "'v engine \<Rightarrow> 'v mpf_t \<Rightarrow> mp_exp_t" where
  "mpf_get_si E op = e_get_si E (mp_val op)"

definition mpf_get_d_2exp :: "'v engine \<Rightarrow> 'v mpf_t \<Rightarrow> mp_exp_t" where
  "mpf_get_d_2exp E op = e_get_d_2exp E (mp_val op)"

section \<open>\<open>mpf_class\<close> in standard mode\<close>

text \<open>
  Everything below is the header compiled without \<open>___GMPXX_MKII_NOPRECCHANGE___\<close>
  (mkII mode, the default); the preprocessor removes the other branches.
\<close>

datatype error = Invalid_argument | Assertion_failed | Signed_overflow

definition get_prec :: "'v mpf_class \<Rightarrow> mp_bitcnt_t" where
  "get_prec x = mpf_get_prec x"

text \<open>\<open>mpf_class()\<close>.\<close>

definition mpf_class_default :: "'v engine \<Rightarrow> mp_bitcnt_t \<Rightarrow> 'v mpf_class" where
  "mpf_class_default E dp = mpf_init E dp"

text \<open>Copy constructor \<open>mpf_class(const mpf_class &op)\<close>.\<close>

definition mpf_class_copy :: "'v engine \<Rightarrow> 'v mpf_class \<Rightarrow> 'v mpf_class" where
  "mpf_class_copy E op = mpf_set E (mpf_init2 E (mpf_get_prec op)) op"

text \<open>
  Move constructor: \<open>mpf_init(value); mpf_swap(value, op.value)\<close>. The new object takes
  over the source's variable, precision included.
\<close>

definition mpf_class_move :: "'v mpf_class \<Rightarrow> 'v mpf_class" where
  "mpf_class_move op = op"

text \<open>
  Copy assignment \<open>operator=(const mpf_class &op)\<close>. \<open>same\<close> is the test
  \<open>this == &op\<close>; when it holds nothing is done. Otherwise the destination is
  re-initialised at the precision it reports for itself and the source is set into it.
  The move assignment has the same body in standard mode.
\<close>

definition operator_assign :: "'v engine \<Rightarrow> bool \<Rightarrow> 'v mpf_class \<Rightarrow> 'v mpf_class \<Rightarrow> 'v mpf_class" where
  "operator_assign E same this op =
     (if \<not> same then mpf_set E (mpf_init2 E (mpf_get_prec this)) op else this)"

text \<open>The assignment between two distinct objects, as every use inside the library is.\<close>

definition assign :: "'v engine \<Rightarrow> 'v mpf_class \<Rightarrow> 'v mpf_class \<Rightarrow> 'v mpf_class" where
  "assign E this op = operator_assign E False this op"

text \<open>Constructors from primitives, without and with a precision.\<close>

definition mpf_class_d :: "'v engine \<Rightarrow> mp_bitcnt_t \<Rightarrow> double \<Rightarrow> 'v mpf_class" where
  "mpf_class_d E dp d = mpf_set_d E (mpf_init E dp) d"

definition mpf_class_si :: "'v engine \<Rightarrow> mp_bitcnt_t \<Rightarrow> int \<Rightarrow> 'v mpf_class" where
  "mpf_class_si E dp i = mpf_set_si E (mpf_init E dp) i"

definition mpf_class_ui :: "'v engine \<Rightarrow> mp_bitcnt_t \<Rightarrow> nat \<Rightarrow> 'v mpf_class" where
  "mpf_class_ui E dp u = mpf_set_ui E (mpf_init E dp) u"

definition mpf_class_d_prec :: "'v engine \<Rightarrow> double \<Rightarrow> mp_bitcnt_t \<Rightarrow> 'v mpf_class" where
  "mpf_class_d_prec E d prec = mpf_set_d E (mpf_init2 E prec) d"

definition mpf_class_si_prec :: "'v engine \<Rightarrow> int \<Rightarrow> mp_bitcnt_t \<Rightarrow> 'v mpf_class" where
  "mpf_class_si_prec E i prec = mpf_set_si E (mpf_init2 E prec) i"

definition mpf_class_ui_prec :: "'v engine \<Rightarrow> nat \<Rightarrow> mp_bitcnt_t \<Rightarrow> 'v mpf_class" where
  "mpf_class_ui_prec E u prec = mpf_set_ui E (mpf_init2 E prec) u"

subsection \<open>Arithmetic operators\<close>

definition largerprec :: "'v mpf_class \<Rightarrow> 'v mpf_class \<Rightarrow> mp_bitcnt_t" where
  "largerprec op1 op2 =
     (let prec1 = get_prec op1; prec2 = get_prec op2 in if prec1 > prec2 then prec1 else prec2)"

text \<open>
  Each operator default-constructs \<open>result\<close> and at once re-initialises it with
  \<open>mpf_init2(result.value, prec)\<close>, which discards the first initialisation.
\<close>

definition operator_add :: "'v engine \<Rightarrow> 'v mpf_class \<Rightarrow> 'v mpf_class \<Rightarrow> 'v mpf_class" where
  "operator_add E op1 op2 =
     (let prec = largerprec op1 op2; result = mpf_init2 E prec in mpf_add E result op1 op2)"

definition operator_sub :: "'v engine \<Rightarrow> 'v mpf_class \<Rightarrow> 'v mpf_class \<Rightarrow> 'v mpf_class" where
  "operator_sub E op1 op2 =
     (let prec = largerprec op1 op2; result = mpf_init2 E prec in mpf_sub E result op1 op2)"

definition operator_mul :: "'v engine \<Rightarrow> 'v mpf_class \<Rightarrow> 'v mpf_class \<Rightarrow> 'v mpf_class" where
  "operator_mul E op1 op2 =
     (let prec = largerprec op1 op2; result = mpf_init2 E prec in mpf_mul E result op1 op2)"

definition operator_div :: "'v engine \<Rightarrow> 'v mpf_class \<Rightarrow> 'v mpf_class \<Rightarrow> 'v mpf_class" where
  "operator_div E op1 op2 =
     (let prec = largerprec op1 op2; result = mpf_init2 E prec in mpf_div E result op1 op2)"

text \<open>
  Mixed operators with a \<open>long\<close> (the \<open>SIGNED_INT_COND\<close> templates): the scalar is
  first made an \<open>mpf_class\<close> by \<open>mpf_class(const signed long int)\<close>, at the default
  precision \<open>dp\<close>, and the product is computed into that object.
  \<open>operator*(T op1, const mpf_class &op2)\<close> returns \<open>op2 * op1\<close>.
\<close>

definition operator_mul_si :: "'v engine \<Rightarrow> mp_bitcnt_t \<Rightarrow> 'v mpf_class \<Rightarrow> int \<Rightarrow> 'v mpf_class" where
  "operator_mul_si E dp op1 op2 = (let result = mpf_class_si E dp op2 in mpf_mul E result op1 result)"

definition operator_si_mul :: "'v engine \<Rightarrow> mp_bitcnt_t \<Rightarrow> int \<Rightarrow> 'v mpf_class \<Rightarrow> 'v mpf_class" where
  "operator_si_mul E dp op1 op2 = operator_mul_si E dp op2 op1"

text \<open>Unary minus: \<open>mpf_class result(op.value); mpf_neg(result.value, op.value)\<close>.\<close>

definition operator_neg :: "'v engine \<Rightarrow> 'v mpf_class \<Rightarrow> 'v mpf_class" where
  "operator_neg E op = (let result = mpf_class_copy E op in mpf_neg E result op)"

definition operator_lt :: "'v engine \<Rightarrow> 'v mpf_class \<Rightarrow> 'v mpf_class \<Rightarrow> bool" where
  "operator_lt E op1 op2 = (mpf_cmp E op1 op2 < 0)"

subsection \<open>Elementary functions and member functions\<close>

definition sqrt_mpf :: "'v engine \<Rightarrow> 'v mpf_class \<Rightarrow> 'v mpf_class" where
  "sqrt_mpf E op = (let rop = mpf_class_copy E op in mpf_sqrt E rop op)"

definition abs_mpf :: "'v engine \<Rightarrow> 'v mpf_class \<Rightarrow> 'v mpf_class" where
  "abs_mpf E op = (let rop = mpf_class_copy E op in mpf_abs E rop op)"

definition floor_mpf :: "'v engine \<Rightarrow> 'v mpf_class \<Rightarrow> 'v mpf_class" where
  "floor_mpf E op = (let rop = mpf_class_copy E op in mpf_floor E rop op)"

definition div_2exp :: "'v engine \<Rightarrow> 'v mpf_class \<Rightarrow> mp_bitcnt_t \<Rightarrow> 'v mpf_class" where
  "div_2exp E this n = mpf_div_2exp E this this n"

definition mul_2exp :: "'v engine \<Rightarrow> 'v mpf_class \<Rightarrow> mp_bitcnt_t \<Rightarrow> 'v mpf_class" where
  "mul_2exp E this n = mpf_mul_2exp E this this n"

definition get_si :: "'v engine \<Rightarrow> 'v mpf_class \<Rightarrow> mp_exp_t" where
  "get_si E this = mpf_get_si E this"

section \<open>The constant \<open>pi\<close>\<close>

text \<open>
  The variables that the loop of \<open>const_pi\<close> updates. Both forms of \<open>const_pi\<close> run
  the same statements on them (part_001, 3044--3056 and 3106--3118).
\<close>

record 'v gl_vars =
  gl_a :: "'v mpf_class"
  gl_b :: "'v mpf_class"
  gl_t :: "'v mpf_class"
  gl_p :: "'v mpf_class"
  gl_a_next :: "'v mpf_class"
  gl_b_next :: "'v mpf_class"
  gl_t_next :: "'v mpf_class"
  gl_tmp_pi :: "'v mpf_class"
  gl_pi_previous :: "'v mpf_class"

definition gl_step :: "'v engine \<Rightarrow> 'v mpf_class \<Rightarrow> 'v mpf_class \<Rightarrow> 'v gl_vars \<Rightarrow> 'v gl_vars" where
  "gl_step E two four s =
    (let a_next = assign E (gl_a_next s) (operator_div E (operator_add E (gl_a s) (gl_b s)) two);
         b_next = assign E (gl_b_next s) (sqrt_mpf E (operator_mul E (gl_a s) (gl_b s)));
         t_next = assign E (gl_t_next s)
                    (operator_sub E (gl_t s)
                       (operator_mul E (operator_mul E (gl_p s) (operator_sub E (gl_a s) a_next))
                          (operator_sub E (gl_a s) a_next)));
         p = assign E (gl_p s) (operator_mul E two (gl_p s));
         a = assign E (gl_a s) a_next;
         b = assign E (gl_b s) b_next;
         t = assign E (gl_t s) t_next;
         pi_previous = assign E (gl_pi_previous s) (gl_tmp_pi s);
         tmp_pi = assign E (gl_tmp_pi s)
                    (operator_div E (operator_mul E (operator_add E a b) (operator_add E a b))
                       (operator_mul E four t))
     in \<lparr>gl_a = a, gl_b = b, gl_t = t, gl_p = p, gl_a_next = a_next, gl_b_next = b_next,
         gl_t_next = t_next, gl_tmp_pi = tmp_pi, gl_pi_previous = pi_previous\<rparr>)"

text \<open>
  The loops have no iteration cap. The first argument of natural-number type bounds the
  number of iterations the model follows; \<open>None\<close> means the loop had not left within it.
  \<open>while (!converged)\<close> starts with \<open>converged = false\<close>, so the body runs before the
  first test.

  \<open>const_pi()\<close> tests \<open>abs(tmp_pi - pi_previous) < epsilon\<close> on the temporary.
\<close>

fun pi_loop0 :: "'v engine \<Rightarrow> 'v mpf_class \<Rightarrow> 'v mpf_class \<Rightarrow> 'v mpf_class \<Rightarrow> nat \<Rightarrow> 'v gl_vars
    \<Rightarrow> 'v gl_vars option" where
  "pi_loop0 E two four epsilon 0 s = None"
| "pi_loop0 E two four epsilon (Suc n) s =
    (let s' = gl_step E two four s in
     if operator_lt E (abs_mpf E (operator_sub E (gl_tmp_pi s') (gl_pi_previous s'))) epsilon
     then Some s' else pi_loop0 E two four epsilon n s')"

text \<open>\<open>const_pi(mp_bitcnt_t)\<close> first stores the difference in \<open>tmp\<close> and tests \<open>tmp < epsilon\<close>.\<close>

fun pi_loop :: "'v engine \<Rightarrow> 'v mpf_class \<Rightarrow> 'v mpf_class \<Rightarrow> 'v mpf_class \<Rightarrow> nat
    \<Rightarrow> 'v gl_vars \<times> 'v mpf_class \<Rightarrow> ('v gl_vars \<times> 'v mpf_class) option" where
  "pi_loop E two four epsilon 0 st = None"
| "pi_loop E two four epsilon (Suc n) st =
    (let s' = gl_step E two four (fst st);
         tmp = assign E (snd st) (abs_mpf E (operator_sub E (gl_tmp_pi s') (gl_pi_previous s')))
     in if operator_lt E tmp epsilon then Some (s', tmp) else pi_loop E two four epsilon n (s', tmp))"

text \<open>The twelve assertions of \<open>const_pi(mp_bitcnt_t)\<close>, the same before and after the loop.\<close>

definition pi_asserts :: "mp_bitcnt_t \<Rightarrow> 'v mpf_class \<Rightarrow> 'v gl_vars \<Rightarrow> 'v mpf_class \<Rightarrow> 'v mpf_class \<Rightarrow> bool" where
  "pi_asserts req_precision calculated_pi s epsilon tmp \<longleftrightarrow>
     get_prec calculated_pi = req_precision \<and>
     get_prec (gl_a s) = req_precision \<and>
     get_prec (gl_b s) = req_precision \<and>
     get_prec (gl_t s) = req_precision \<and>
     get_prec (gl_p s) = req_precision \<and>
     get_prec (gl_a_next s) = req_precision \<and>
     get_prec (gl_b_next s) = req_precision \<and>
     get_prec (gl_t_next s) = req_precision \<and>
     get_prec (gl_tmp_pi s) = req_precision \<and>
     get_prec (gl_pi_previous s) = req_precision \<and>
     get_prec epsilon = req_precision \<and>
     get_prec tmp = req_precision"

text \<open>The variables of \<open>const_pi(mp_bitcnt_t)\<close> as they are when the first assertion is reached.\<close>

definition pi_init :: "'v engine \<Rightarrow> mp_bitcnt_t \<Rightarrow> 'v gl_vars" where
  "pi_init E req_precision =
    (let zero = mpf_class_d_prec E 0 req_precision;
         quarter = mpf_class_d_prec E (1 / 4) req_precision;
         one = mpf_class_d_prec E 1 req_precision;
         two = mpf_class_d_prec E 2 req_precision
     in \<lparr>gl_a = mpf_class_copy E one,
         gl_b = mpf_class_move (operator_div E one (sqrt_mpf E two)),
         gl_t = mpf_class_copy E quarter,
         gl_p = mpf_class_copy E one,
         gl_a_next = mpf_class_copy E zero,
         gl_b_next = mpf_class_copy E zero,
         gl_t_next = mpf_class_copy E zero,
         gl_tmp_pi = mpf_class_copy E zero,
         gl_pi_previous = mpf_class_copy E zero\<rparr>)"

text \<open>
  \<open>const_pi(mp_bitcnt_t req_precision)\<close>. A failed \<open>assert\<close> aborts the program:
  \<open>Inl Assertion_failed\<close>.
\<close>

definition const_pi_prec :: "'v engine \<Rightarrow> nat \<Rightarrow> mp_bitcnt_t \<Rightarrow> (error + 'v mpf_class) option" where
  "const_pi_prec E fuel req_precision =
    (let zero = mpf_class_d_prec E 0 req_precision;
         one = mpf_class_d_prec E 1 req_precision;
         two = mpf_class_d_prec E 2 req_precision;
         four = mpf_class_d_prec E 4 req_precision;
         calculated_pi = mpf_class_copy E zero;
         s0 = pi_init E req_precision;
         epsilon = mpf_class_copy E zero;
         tmp = mpf_class_copy E zero
     in if \<not> pi_asserts req_precision calculated_pi s0 epsilon tmp then Some (Inl Assertion_failed)
        else
          (let epsilon = div_2exp E (assign E epsilon one) req_precision
           in case pi_loop E two four epsilon fuel (s0, tmp) of
                None \<Rightarrow> None
              | Some (s, tmp) \<Rightarrow>
                  (let calculated_pi = assign E calculated_pi (gl_tmp_pi s)
                   in if \<not> pi_asserts req_precision calculated_pi s epsilon tmp
                      then Some (Inl Assertion_failed)
                      else Some (Inr calculated_pi))))"

section \<open>The constant \<open>log 2\<close>\<close>

text \<open>
  The arithmetic-geometric mean loop of \<open>const_log2\<close> and \<open>log\<close>: the means are computed
  into \<open>a_next\<close> and \<open>b_next\<close>, the test \<open>abs(a - b) < epsilon\<close> reads \<open>a\<close> and \<open>b\<close>
  before they are overwritten, then \<open>a = a_next; b = b_next\<close>.
\<close>

record 'v agm_vars =
  agm_a :: "'v mpf_class"
  agm_b :: "'v mpf_class"
  agm_a_next :: "'v mpf_class"
  agm_b_next :: "'v mpf_class"

definition agm_converged :: "'v engine \<Rightarrow> 'v mpf_class \<Rightarrow> 'v agm_vars \<Rightarrow> bool" where
  "agm_converged E epsilon s =
     operator_lt E (abs_mpf E (operator_sub E (agm_a s) (agm_b s))) epsilon"

definition agm_step :: "'v engine \<Rightarrow> 'v mpf_class \<Rightarrow> 'v agm_vars \<Rightarrow> 'v agm_vars" where
  "agm_step E two s =
    (let a_next = assign E (agm_a_next s) (operator_div E (operator_add E (agm_a s) (agm_b s)) two);
         b_next = assign E (agm_b_next s) (sqrt_mpf E (operator_mul E (agm_a s) (agm_b s)))
     in \<lparr>agm_a = assign E (agm_a s) a_next, agm_b = assign E (agm_b s) b_next,
         agm_a_next = a_next, agm_b_next = b_next\<rparr>)"

fun agm_loop :: "'v engine \<Rightarrow> 'v mpf_class \<Rightarrow> 'v mpf_class \<Rightarrow> nat \<Rightarrow> 'v agm_vars
    \<Rightarrow> 'v agm_vars option" where
  "agm_loop E two epsilon 0 s = None"
| "agm_loop E two epsilon (Suc n) s =
    (if agm_converged E epsilon s then Some (agm_step E two s)
     else agm_loop E two epsilon n (agm_step E two s))"

text \<open>
  The loop of \<open>const_log2(mp_bitcnt_t)\<close> also asserts the precision of \<open>b_next\<close> in
  every pass.
\<close>

fun log2_loop :: "'v engine \<Rightarrow> mp_bitcnt_t \<Rightarrow> 'v mpf_class \<Rightarrow> 'v mpf_class \<Rightarrow> nat \<Rightarrow> 'v agm_vars
    \<Rightarrow> (error + 'v agm_vars) option" where
  "log2_loop E req_precision two epsilon 0 s = None"
| "log2_loop E req_precision two epsilon (Suc n) s =
    (if get_prec (agm_b_next (agm_step E two s)) \<noteq> req_precision then Some (Inl Assertion_failed)
     else if agm_converged E epsilon s then Some (Inr (agm_step E two s))
     else log2_loop E req_precision two epsilon n (agm_step E two s))"

text \<open>
  The assertions of \<open>const_log2(mp_bitcnt_t)\<close> on its variables; \<open>tmp\<close> and \<open>sum\<close>
  (here \<open>sum_v\<close>) are declared and asserted but never written.
\<close>

definition log2_asserts :: "mp_bitcnt_t \<Rightarrow> 'v mpf_class \<Rightarrow> 'v mpf_class \<Rightarrow> 'v mpf_class \<Rightarrow> 'v mpf_class
    \<Rightarrow> 'v agm_vars \<Rightarrow> 'v mpf_class \<Rightarrow> 'v mpf_class \<Rightarrow> bool" where
  "log2_asserts req_precision log2_v epsilon tmp sum_v s one two \<longleftrightarrow>
     get_prec log2_v = req_precision \<and>
     get_prec epsilon = req_precision \<and>
     get_prec tmp = req_precision \<and>
     get_prec sum_v = req_precision \<and>
     get_prec (agm_a s) = req_precision \<and>
     get_prec (agm_b s) = req_precision \<and>
     get_prec (agm_a_next s) = req_precision \<and>
     get_prec (agm_b_next s) = req_precision \<and>
     get_prec one = req_precision \<and>
     get_prec two = req_precision"

definition log2_init :: "'v engine \<Rightarrow> mp_bitcnt_t \<Rightarrow> 'v agm_vars" where
  "log2_init E req_precision =
    (let zero = mpf_class_d_prec E 0 req_precision;
         one = mpf_class_d_prec E 1 req_precision
     in \<lparr>agm_a = mpf_class_copy E one,
         agm_b = div_2exp E (mpf_class_copy E one) (req_precision div 2 - 2),
         agm_a_next = mpf_class_copy E zero,
         agm_b_next = mpf_class_copy E zero\<rparr>)"

text \<open>
  \<open>const_log2(mp_bitcnt_t req_precision)\<close>. The shift count
  \<open>(req_precision / 2) - 2\<close> is unsigned and wraps below 4. \<open>const_pi(req_precision)\<close>
  is called for the quotient and again inside an assertion; it has no side effect, so
  the model takes its result once.
\<close>

definition const_log2_prec :: "'v engine \<Rightarrow> nat \<Rightarrow> mp_bitcnt_t \<Rightarrow> (error + 'v mpf_class) option" where
  "const_log2_prec E fuel req_precision =
    (let zero = mpf_class_d_prec E 0 req_precision;
         one = mpf_class_d_prec E 1 req_precision;
         two = mpf_class_d_prec E 2 req_precision;
         log2_v = mpf_class_copy E zero;
         epsilon = mpf_class_copy E one;
         tmp = mpf_class_copy E zero;
         sum_v = mpf_class_copy E one;
         s0 = log2_init E req_precision;
         epsilon = div_2exp E epsilon req_precision
     in if \<not> log2_asserts req_precision log2_v epsilon tmp sum_v s0 one two then Some (Inl Assertion_failed)
        else
          (case log2_loop E req_precision two epsilon fuel s0 of
             None \<Rightarrow> None
           | Some (Inl e) \<Rightarrow> Some (Inl e)
           | Some (Inr s) \<Rightarrow>
               (case const_pi_prec E fuel req_precision of
                  None \<Rightarrow> None
                | Some (Inl e) \<Rightarrow> Some (Inl e)
                | Some (Inr pi_v) \<Rightarrow>
                    (let factor = mpf_class_ui_prec E (unat req_precision) req_precision;
                         log2_v = assign E log2_v (operator_div E pi_v (operator_mul E factor (agm_a s)))
                     in if get_prec pi_v \<noteq> req_precision \<or> get_prec factor \<noteq> req_precision
                           \<or> \<not> log2_asserts req_precision log2_v epsilon tmp sum_v s one two
                        then Some (Inl Assertion_failed)
                        else Some (Inr log2_v)))))"

text \<open>Every variable of the \<open>pi\<close> loop, respectively of the mean loop, has precision \<open>p\<close>.\<close>

definition gl_all_prec :: "mp_bitcnt_t \<Rightarrow> 'v gl_vars \<Rightarrow> bool" where
  "gl_all_prec p s \<longleftrightarrow>
     get_prec (gl_a s) = p \<and> get_prec (gl_b s) = p \<and> get_prec (gl_t s) = p \<and>
     get_prec (gl_p s) = p \<and> get_prec (gl_a_next s) = p \<and> get_prec (gl_b_next s) = p \<and>
     get_prec (gl_t_next s) = p \<and> get_prec (gl_tmp_pi s) = p \<and> get_prec (gl_pi_previous s) = p"

definition agm_all_prec :: "mp_bitcnt_t \<Rightarrow> 'v agm_vars \<Rightarrow> bool" where
  "agm_all_prec p s \<longleftrightarrow>
     get_prec (agm_a s) = p \<and> get_prec (agm_b s) = p \<and>
     get_prec (agm_a_next s) = p \<and> get_prec (agm_b_next s) = p"

section \<open>\<open>log\<close> and \<open>exp\<close>\<close>

text \<open>The ten assertions of \<open>log\<close>, the same before and after the loop.\<close>

definition log_asserts :: "mp_bitcnt_t \<Rightarrow> 'v mpf_class \<Rightarrow> 'v mpf_class \<Rightarrow> 'v mpf_class \<Rightarrow> 'v agm_vars
    \<Rightarrow> 'v mpf_class \<Rightarrow> 'v mpf_class \<Rightarrow> 'v mpf_class \<Rightarrow> bool" where
  "log_asserts req_precision log_v epsilon tmp s s_v pi_v log2_v \<longleftrightarrow>
     get_prec log_v = req_precision \<and>
     get_prec epsilon = req_precision \<and>
     get_prec tmp = req_precision \<and>
     get_prec (agm_a s) = req_precision \<and>
     get_prec (agm_b s) = req_precision \<and>
     get_prec (agm_a_next s) = req_precision \<and>
     get_prec (agm_b_next s) = req_precision \<and>
     get_prec s_v = req_precision \<and>
     get_prec pi_v = req_precision \<and>
     get_prec log2_v = req_precision"

text \<open>
  The range reduction of \<open>log\<close> (part_001, 3276--3285): the exponent \<open>m\<close> and what
  \<open>s\<close> and \<open>b\<close> hold when the loop starts. \<open>m\<close> is a \<open>long\<close>; \<open>b.mul_2exp(m)\<close>
  converts it to \<open>mp_bitcnt_t\<close>.
\<close>

definition log_reduce :: "'v engine \<Rightarrow> mp_bitcnt_t \<Rightarrow> 'v mpf_class \<Rightarrow> 'v mpf_class \<Rightarrow> 'v mpf_class
    \<Rightarrow> 'v mpf_class \<Rightarrow> 'v mpf_class \<Rightarrow> mp_exp_t \<times> 'v mpf_class \<times> 'v mpf_class" where
  "log_reduce E req_precision one four x b s_v =
    (let b = mul_2exp E (assign E b one) (req_precision div 2);
         s_v = assign E s_v (operator_div E b x);
         m = mpf_get_d_2exp E s_v;
         b = mul_2exp E (assign E b one) m;
         s_v = assign E s_v (operator_mul E x b);
         b = assign E b (operator_div E four s_v)
     in (m, s_v, b))"

text \<open>
  \<open>log(const mpf_class &x)\<close> (part_001, 3244--3314); \<open>dp\<close> is the default precision
  at the time of the call, read by the \<open>long\<close>-times-\<open>mpf_class\<close> product
  \<open>m * _log2\<close>.
\<close>

definition log_mpf :: "'v engine \<Rightarrow> nat \<Rightarrow> mp_bitcnt_t \<Rightarrow> 'v mpf_class \<Rightarrow> (error + 'v mpf_class) option" where
  "log_mpf E fuel dp x =
    (let req_precision = get_prec x;
         zero = mpf_class_d_prec E 0 req_precision;
         one = mpf_class_d_prec E 1 req_precision;
         two = mpf_class_d_prec E 2 req_precision;
         four = mpf_class_d_prec E 4 req_precision;
         log_v = mpf_class_copy E zero;
         epsilon = mpf_class_copy E one;
         tmp = mpf_class_copy E zero;
         s0 = \<lparr>agm_a = mpf_class_copy E one, agm_b = mpf_class_copy E one,
               agm_a_next = mpf_class_copy E zero, agm_b_next = mpf_class_copy E zero\<rparr>;
         s_v = mpf_class_copy E one
     in case const_pi_prec E fuel req_precision of
          None \<Rightarrow> None
        | Some (Inl e) \<Rightarrow> Some (Inl e)
        | Some (Inr pi_r) \<Rightarrow>
           (case const_log2_prec E fuel req_precision of
              None \<Rightarrow> None
            | Some (Inl e) \<Rightarrow> Some (Inl e)
            | Some (Inr log2_r) \<Rightarrow>
               (let pi_v = mpf_class_move pi_r;
                    log2_v = mpf_class_move log2_r
                in if \<not> log_asserts req_precision log_v epsilon tmp s0 s_v pi_v log2_v
                   then Some (Inl Assertion_failed)
                   else
                    (case log_reduce E req_precision one four x (agm_b s0) s_v of
                       (m, s_v, b) \<Rightarrow>
                        (let epsilon = div_2exp E epsilon req_precision
                         in case agm_loop E two epsilon fuel (s0\<lparr>agm_b := b\<rparr>) of
                              None \<Rightarrow> None
                            | Some s \<Rightarrow>
                               (let log_v = assign E log_v
                                      (operator_sub E (operator_div E pi_v (operator_mul E two (agm_b s)))
                                         (operator_si_mul E dp (sint m) log2_v))
                                in if \<not> log_asserts req_precision log_v epsilon tmp s s_v pi_v log2_v
                                   then Some (Inl Assertion_failed)
                                   else Some (Inr log_v)))))))"

text \<open>
  The Taylor loop of \<open>exp\<close>, \<open>for (int i = l; i > 0; i--)\<close>, by recursion on the
  value of \<open>i\<close>, and the squaring loop \<open>for (int i = 0; i < k; i++)\<close> by recursion on
  the number of passes left.
\<close>

fun exp_taylor :: "'v engine \<Rightarrow> mp_bitcnt_t \<Rightarrow> 'v mpf_class \<Rightarrow> 'v mpf_class \<Rightarrow> nat \<Rightarrow> 'v mpf_class
    \<Rightarrow> 'v mpf_class" where
  "exp_taylor E req_precision one r 0 exp_v = exp_v"
| "exp_taylor E req_precision one r (Suc i) exp_v =
     exp_taylor E req_precision one r i
       (assign E exp_v
          (operator_add E one
             (operator_div E (operator_mul E r exp_v) (mpf_class_si_prec E (int (Suc i)) req_precision))))"

fun exp_square :: "'v engine \<Rightarrow> nat \<Rightarrow> 'v mpf_class \<Rightarrow> 'v mpf_class" where
  "exp_square E 0 exp_v = exp_v"
| "exp_square E (Suc n) exp_v = exp_square E n (assign E exp_v (operator_mul E exp_v exp_v))"

text \<open>
  The range reduction of \<open>exp\<close> (part_001, 3334--3346): what \<open>r\<close>, \<open>k\<close>, \<open>l\<close> and
  \<open>n\<close> hold when the Taylor loop starts. \<open>k\<close>, \<open>l\<close> and \<open>n\<close> are \<open>long\<close>;
  \<open>l = req_precision / k\<close> is an unsigned division.
\<close>

record 'v exp_red =
  red_r :: "'v mpf_class"
  red_k :: mp_exp_t
  red_l :: mp_exp_t
  red_n :: mp_exp_t

definition exp_reduce :: "'v engine \<Rightarrow> mp_bitcnt_t \<Rightarrow> mp_bitcnt_t \<Rightarrow> 'v mpf_class \<Rightarrow> 'v mpf_class
    \<Rightarrow> 'v mpf_class \<Rightarrow> 'v exp_red" where
  "exp_reduce E dp req_precision r x_v log2_v =
    (let k = mpf_get_d_2exp E x_v
     in if 0 < sint k then
          (let x_v = div_2exp E x_v k;
               log2_v = div_2exp E log2_v k;
               n = get_si E (floor_mpf E (operator_div E x_v log2_v));
               r = assign E r (operator_sub E x_v (operator_si_mul E dp (sint n) log2_v));
               l = req_precision div k
           in \<lparr>red_r = r, red_k = k, red_l = l, red_n = n\<rparr>)
        else \<lparr>red_r = assign E r x_v, red_k = 0, red_l = req_precision, red_n = 0\<rparr>)"

text \<open>
  \<open>exp(const mpf_class &x)\<close> (part_001, 3315--3360). \<open>exp_body\<close> is the function
  without its two calls \<open>const_pi(req_precision)\<close> and \<open>const_log2(req_precision)\<close>,
  given what the second returns (what the first returns, \<open>_pi\<close>, is never read).
  \<open>int i = l\<close> keeps the low 32 bits. When \<open>k\<close> exceeds \<open>INT_MAX\<close> the counter of
  the squaring loop overflows, which is undefined: \<open>Inl Signed_overflow\<close>.
\<close>

definition exp_body :: "'v engine \<Rightarrow> mp_bitcnt_t \<Rightarrow> 'v mpf_class \<Rightarrow> 'v mpf_class \<Rightarrow> error + 'v mpf_class" where
  "exp_body E dp x log2_r =
    (let req_precision = get_prec x;
         zero = mpf_class_d_prec E 0 req_precision;
         one = mpf_class_d_prec E 1 req_precision;
         exp_v = mpf_class_copy E one;
         x_v = mpf_class_copy E x;
         r = mpf_class_copy E zero;
         log2_v = mpf_class_move log2_r;
         x_v = (if operator_lt E x zero then assign E x_v (operator_neg E x_v) else x_v);
         red = exp_reduce E dp req_precision r x_v log2_v;
         i = (ucast (red_l red) :: c_int);
         exp_v = exp_taylor E req_precision one (red_r red) (nat (sint i)) exp_v
     in if 2 ^ 31 \<le> sint (red_k red) then Inl Signed_overflow
        else
         (let exp_v = exp_square E (nat (sint (red_k red))) exp_v;
              exp_v = (if 0 < sint (red_n red) then mul_2exp E exp_v (red_n red) else exp_v);
              exp_v = (if sint (red_n red) < 0 then div_2exp E exp_v (- red_n red) else exp_v);
              exp_v = (if operator_lt E x zero then assign E exp_v (operator_div E one exp_v)
                       else exp_v)
          in Inr exp_v))"

definition exp_mpf :: "'v engine \<Rightarrow> nat \<Rightarrow> mp_bitcnt_t \<Rightarrow> 'v mpf_class \<Rightarrow> (error + 'v mpf_class) option" where
  "exp_mpf E fuel dp x =
    (case const_pi_prec E fuel (get_prec x) of
       None \<Rightarrow> None
     | Some (Inl e) \<Rightarrow> Some (Inl e)
     | Some (Inr pi_r) \<Rightarrow>
        (case const_log2_prec E fuel (get_prec x) of
           None \<Rightarrow> None
         | Some (Inl e) \<Rightarrow> Some (Inl e)
         | Some (Inr log2_r) \<Rightarrow> Some (exp_body E dp x log2_r)))"

section \<open>Program-wide state and the cached constants\<close>

text \<open>
  The mutable state the zero-argument forms work on:
  \<^item> \<open>default_prec\<close>: what \<open>mpf_get_default_prec()\<close> returns;
  \<^item> \<open>base\<close>: \<open>gmpxx_defaults::base\<close>;
  \<^item> \<open>pi_cached\<close>: the namespace-scope object \<open>mpf_class pi_cached\<close>;
  \<^item> \<open>pi_calculated\<close>, \<open>calculated_pi_precision\<close>: the statics \<open>calculated\<close> and
    \<open>calculated_pi_precision\<close> local to \<open>const_pi()\<close>;
  \<^item> \<open>log2_cached\<close>: the static \<open>log2_cached\<close> local to \<open>const_log2()\<close> (it hides
    the namespace-scope object of the same name), \<open>None\<close> until the first call
    constructs it;
  \<^item> \<open>log2_calculated\<close>, \<open>calculated_log2_precision\<close>: the other two statics of
    \<open>const_log2()\<close>.
\<close>

record 'v globals =
  default_prec :: mp_bitcnt_t
  base :: int
  pi_cached :: "'v mpf_class"
  pi_calculated :: bool
  calculated_pi_precision :: mp_bitcnt_t
  log2_cached :: "'v mpf_class option"
  log2_calculated :: bool
  calculated_log2_precision :: mp_bitcnt_t

definition mpf_get_default_prec :: "'v globals \<Rightarrow> mp_bitcnt_t" where
  "mpf_get_default_prec st = default_prec st"

definition mpf_set_default_prec :: "'v engine \<Rightarrow> mp_bitcnt_t \<Rightarrow> 'v globals \<Rightarrow> 'v globals" where
  "mpf_set_default_prec E n st = st\<lparr>default_prec := e_grant E n\<rparr>"

text \<open>The variables of \<open>const_pi()\<close> when its loop starts, at default precision \<open>dp\<close>.\<close>

definition pi_init0 :: "'v engine \<Rightarrow> mp_bitcnt_t \<Rightarrow> 'v gl_vars" where
  "pi_init0 E dp =
    (let one = mpf_class_d E dp 1;
         two = mpf_class_d E dp 2
     in \<lparr>gl_a = mpf_class_copy E one,
         gl_b = mpf_class_move (operator_div E one (sqrt_mpf E two)),
         gl_t = mpf_class_d E dp (1 / 4),
         gl_p = mpf_class_copy E one,
         gl_a_next = mpf_class_default E dp,
         gl_b_next = mpf_class_default E dp,
         gl_t_next = mpf_class_default E dp,
         gl_tmp_pi = mpf_class_default E dp,
         gl_pi_previous = mpf_class_default E dp\<rparr>)"

text \<open>
  \<open>const_pi()\<close> (part_001, 3021--3069). It returns \<open>pi_cached\<close> by value, a copy.
\<close>

definition const_pi :: "'v engine \<Rightarrow> nat \<Rightarrow> 'v globals \<Rightarrow> ('v mpf_class \<times> 'v globals) option" where
  "const_pi E fuel st =
    (let default_prec_v = mpf_get_default_prec st
     in if \<not> pi_calculated st \<or> (pi_calculated st \<and> calculated_pi_precision st \<noteq> default_prec_v)
        then
          (let st = st\<lparr>pi_cached := assign E (pi_cached st) (mpf_class_default E default_prec_v)\<rparr>;
               st = st\<lparr>calculated_pi_precision := mpf_get_default_prec st\<rparr>;
               one = mpf_class_d E default_prec_v 1;
               two = mpf_class_d E default_prec_v 2;
               four = mpf_class_d E default_prec_v 4;
               epsilon = div_2exp E (mpf_class_copy E one) default_prec_v
           in case pi_loop0 E two four epsilon fuel (pi_init0 E default_prec_v) of
                None \<Rightarrow> None
              | Some s \<Rightarrow>
                  (let st = st\<lparr>pi_calculated := True\<rparr>;
                       st = st\<lparr>pi_cached := assign E (pi_cached st) (gl_tmp_pi s)\<rparr>
                   in Some (mpf_class_copy E (pi_cached st), st)))
        else Some (mpf_class_copy E (pi_cached st), st))"

text \<open>
  \<open>const_log2()\<close> (part_001, 3145--3183). The one value \<open>epsilon\<close>, \<open>1\<close> divided by
  \<open>2^((_default_prec / 2) - 2)\<close>, is both the threshold of the loop and the start of \<open>b\<close>.
\<close>

definition log2_init0 :: "'v engine \<Rightarrow> mp_bitcnt_t \<Rightarrow> 'v mpf_class \<Rightarrow> 'v agm_vars" where
  "log2_init0 E dp epsilon =
     \<lparr>agm_a = mpf_class_copy E (mpf_class_d E dp 1),
      agm_b = mpf_class_copy E epsilon,
      agm_a_next = mpf_class_default E dp,
      agm_b_next = mpf_class_default E dp\<rparr>"

definition const_log2 :: "'v engine \<Rightarrow> nat \<Rightarrow> 'v globals \<Rightarrow> ('v mpf_class \<times> 'v globals) option" where
  "const_log2 E fuel st =
    (let default_prec_v = mpf_get_default_prec st;
         slot = (case log2_cached st of None \<Rightarrow> mpf_class_default E default_prec_v | Some c \<Rightarrow> c);
         st = st\<lparr>log2_cached := Some slot\<rparr>
     in if \<not> log2_calculated st \<or> (log2_calculated st \<and> calculated_log2_precision st \<noteq> default_prec_v)
        then
          (let slot = assign E slot (mpf_class_default E default_prec_v);
               st = st\<lparr>log2_cached := Some slot, calculated_log2_precision := mpf_get_default_prec st\<rparr>;
               one = mpf_class_d E default_prec_v 1;
               two = mpf_class_d E default_prec_v 2;
               epsilon = div_2exp E (mpf_class_copy E one) (default_prec_v div 2 - 2)
           in case agm_loop E two epsilon fuel (log2_init0 E default_prec_v epsilon) of
                None \<Rightarrow> None
              | Some s \<Rightarrow>
                  (case const_pi E fuel st of
                     None \<Rightarrow> None
                   | Some (pi_v, st) \<Rightarrow>
                       (let slot = assign E slot
                              (operator_div E pi_v
                                 (operator_mul E (mpf_class_ui E default_prec_v (unat default_prec_v)) (agm_a s)));
                            st = st\<lparr>log2_cached := Some slot, log2_calculated := True\<rparr>
                        in Some (mpf_class_copy E slot, st))))
        else Some (mpf_class_copy E slot, st))"

subsection \<open>\<open>const_pi()\<close> in \<open>src/gmpxx_mkII.h\<close>\<close>

text \<open>
  The older header has the same text of \<open>const_pi()\<close> (1183--1231) over a class whose
  move assignment is \<open>mpf_swap(value, op.value)\<close> (846--852): a destination that is
  assigned a temporary takes the temporary's variable, value and precision. Its
  constructor from a \<open>double\<close> is \<open>mpf_init2(value, defaults::get_default_prec())\<close>
  followed by \<open>mpf_set_d\<close> (727--730). The copy assignment, the copy constructor and
  the operators are as in the newer header.
\<close>

definition move_assign_mkII :: "'v mpf_class \<Rightarrow> 'v mpf_class \<Rightarrow> 'v mpf_class" where
  "move_assign_mkII this op = op"

definition gl_step_mkII :: "'v engine \<Rightarrow> 'v mpf_class \<Rightarrow> 'v mpf_class \<Rightarrow> 'v gl_vars \<Rightarrow> 'v gl_vars" where
  "gl_step_mkII E two four s =
    (let a_next = move_assign_mkII (gl_a_next s) (operator_div E (operator_add E (gl_a s) (gl_b s)) two);
         b_next = move_assign_mkII (gl_b_next s) (sqrt_mpf E (operator_mul E (gl_a s) (gl_b s)));
         t_next = move_assign_mkII (gl_t_next s)
                    (operator_sub E (gl_t s)
                       (operator_mul E (operator_mul E (gl_p s) (operator_sub E (gl_a s) a_next))
                          (operator_sub E (gl_a s) a_next)));
         p = move_assign_mkII (gl_p s) (operator_mul E two (gl_p s));
         a = assign E (gl_a s) a_next;
         b = assign E (gl_b s) b_next;
         t = assign E (gl_t s) t_next;
         pi_previous = assign E (gl_pi_previous s) (gl_tmp_pi s);
         tmp_pi = move_assign_mkII (gl_tmp_pi s)
                    (operator_div E (operator_mul E (operator_add E a b) (operator_add E a b))
                       (operator_mul E four t))
     in \<lparr>gl_a = a, gl_b = b, gl_t = t, gl_p = p, gl_a_next = a_next, gl_b_next = b_next,
         gl_t_next = t_next, gl_tmp_pi = tmp_pi, gl_pi_previous = pi_previous\<rparr>)"

fun pi_loop0_mkII :: "'v engine \<Rightarrow> 'v mpf_class \<Rightarrow> 'v mpf_class \<Rightarrow> 'v mpf_class \<Rightarrow> nat \<Rightarrow> 'v gl_vars
    \<Rightarrow> 'v gl_vars option" where
  "pi_loop0_mkII E two four epsilon 0 s = None"
| "pi_loop0_mkII E two four epsilon (Suc n) s =
    (let s' = gl_step_mkII E two four s in
     if operator_lt E (abs_mpf E (operator_sub E (gl_tmp_pi s') (gl_pi_previous s'))) epsilon
     then Some s' else pi_loop0_mkII E two four epsilon n s')"

definition pi_init0_mkII :: "'v engine \<Rightarrow> mp_bitcnt_t \<Rightarrow> 'v gl_vars" where
  "pi_init0_mkII E dp =
    (let one = mpf_class_d_prec E 1 dp;
         two = mpf_class_d_prec E 2 dp
     in \<lparr>gl_a = mpf_class_copy E one,
         gl_b = mpf_class_move (operator_div E one (sqrt_mpf E two)),
         gl_t = mpf_class_d_prec E (1 / 4) dp,
         gl_p = mpf_class_copy E one,
         gl_a_next = mpf_class_default E dp,
         gl_b_next = mpf_class_default E dp,
         gl_t_next = mpf_class_default E dp,
         gl_tmp_pi = mpf_class_default E dp,
         gl_pi_previous = mpf_class_default E dp\<rparr>)"

definition const_pi_mkII :: "'v engine \<Rightarrow> nat \<Rightarrow> 'v globals \<Rightarrow> ('v mpf_class \<times> 'v globals) option" where
  "const_pi_mkII E fuel st =
    (let default_prec_v = mpf_get_default_prec st
     in if \<not> pi_calculated st \<or> (pi_calculated st \<and> calculated_pi_precision st \<noteq> default_prec_v)
        then
          (let st = st\<lparr>pi_cached := move_assign_mkII (pi_cached st) (mpf_class_default E default_prec_v)\<rparr>;
               st = st\<lparr>calculated_pi_precision := mpf_get_default_prec st\<rparr>;
               one = mpf_class_d_prec E 1 default_prec_v;
               two = mpf_class_d_prec E 2 default_prec_v;
               four = mpf_class_d_prec E 4 default_prec_v;
               epsilon = div_2exp E (mpf_class_copy E one) default_prec_v
           in case pi_loop0_mkII E two four epsilon fuel (pi_init0_mkII E default_prec_v) of
                None \<Rightarrow> None
              | Some s \<Rightarrow>
                  (let st = st\<lparr>pi_calculated := True\<rparr>;
                       st = st\<lparr>pi_cached := assign E (pi_cached st) (gl_tmp_pi s)\<rparr>
                   in Some (mpf_class_copy E (pi_cached st), st)))
        else Some (mpf_class_copy E (pi_cached st), st))"

subsection \<open>The reset operations\<close>

text \<open>
  Modelled from the spec: \<open>reset_pi_cache\<close> and \<open>reset_log2_cache\<close> are declared as
  static members of \<open>mpf_class\<close> (part_001, 2256 and 2259) and defined nowhere in the
  repository. The spec (4.4): reset operations force-invalidate the cache, explicitly
  dropping the memoized value, so that the next zero-argument call recomputes even if
  the precision has not changed.
\<close>

definition reset_pi_cache :: "'v globals \<Rightarrow> 'v globals" where
  "reset_pi_cache st = st\<lparr>pi_calculated := False\<rparr>"

definition reset_log2_cache :: "'v globals \<Rightarrow> 'v globals" where
  "reset_log2_cache st = st\<lparr>log2_calculated := False\<rparr>"

subsection \<open>The cache as the specification describes it\<close>

text \<open>
  The specification (3, 4.4): a cache entry is one value and the precision it was
  computed at; it is valid exactly when a value has been computed and the stored
  precision equals the current default precision. A read of a valid entry returns the
  value; any other read computes the constant at the current default precision and
  overwrites the value and the stored precision. \<open>compute\<close> is the computation, which
  may not return; \<open>ret\<close> is how the value is handed out (by value, a copy).
\<close>

definition cached_pi_spec :: "('v globals \<Rightarrow> 'v mpf_class option) \<Rightarrow> ('v mpf_class \<Rightarrow> 'v mpf_class)
    \<Rightarrow> 'v globals \<Rightarrow> ('v mpf_class \<times> 'v globals) option" where
  "cached_pi_spec compute ret st =
     (if pi_calculated st \<and> calculated_pi_precision st = default_prec st
      then Some (ret (pi_cached st), st)
      else map_option
             (\<lambda>v. (ret v, st\<lparr>pi_cached := v, calculated_pi_precision := default_prec st,
                             pi_calculated := True\<rparr>))
             (compute st))"

section \<open>Construction from strings\<close>

text \<open>
  \<open>mpf_class(const char *str)\<close> and \<open>mpf_class(const std::string &str)\<close>:
  \<open>mpf_init_set_str\<close> at the default precision and in base \<open>gmpxx_defaults::base\<close>; a
  non-zero return throws \<open>std::invalid_argument\<close>. The constructors with a precision
  (and an optional base, by default \<open>gmpxx_defaults::base\<close>) call \<open>mpf_init2\<close> and
  \<open>mpf_set_str\<close>. The \<open>const char *\<close> and \<open>std::string\<close> overloads have the same body.
\<close>

definition mpf_class_str :: "'v engine \<Rightarrow> 'v globals \<Rightarrow> string \<Rightarrow> error + 'v mpf_class" where
  "mpf_class_str E st str =
     (case e_set_str E (default_prec st) str (base st) of
        None \<Rightarrow> Inl Invalid_argument
      | Some v \<Rightarrow> Inr \<lparr>mp_prec = default_prec st, mp_val = v\<rparr>)"

definition mpf_class_str_prec :: "'v engine \<Rightarrow> string \<Rightarrow> mp_bitcnt_t \<Rightarrow> int \<Rightarrow> error + 'v mpf_class" where
  "mpf_class_str_prec E str prec b =
     (let value_v = mpf_init2 E prec
      in case e_set_str E (mp_prec value_v) str b of
           None \<Rightarrow> Inl Invalid_argument
         | Some v \<Rightarrow> Inr (value_v\<lparr>mp_val := v\<rparr>))"

text \<open>
  An object holds a precision that the engine grants as it is: true of every
  variable the engine has initialised, when granting is idempotent.
\<close>

definition prec_granted :: "'v engine \<Rightarrow> 'v mpf_class \<Rightarrow> bool" where
  "prec_granted E x = (e_grant E (mp_prec x) = mp_prec x)"

section \<open>Concrete engines\<close>

text \<open>
  GMP on LP64 keeps the precision of a variable in whole 64-bit limbs:
  \<open>mpf_init2\<close> stores \<open>(max 53 n + 127) div 64\<close> limbs and \<open>mpf_get_prec\<close> reports
  \<open>64 * limbs - 64\<close> bits.
\<close>

definition limb_grant :: "mp_bitcnt_t \<Rightarrow> mp_bitcnt_t" where
  "limb_grant n = ((max 53 n + 127) div 64) * 64 - 64"

subsection \<open>A limb engine\<close>

text \<open>
  An executable engine, used to run the model on concrete inputs. It is written after
  the documented behaviour of GMP's \<open>mpf\<close> functions, not from a source of this
  repository, and it is not GMP: a magnitude is an integer \<open>m\<close> standing for
  \<open>m / 2^S\<close>, with \<open>S\<close> a multiple of 64 so that 64-bit limbs lie as they do in GMP. A
  variable of precision \<open>p\<close> holds one limb more than the \<open>(max 53 p + 127) div 64\<close>
  limbs of its precision, and every operation cuts its exact result, towards zero, to
  that many leading limbs. What lies below \<open>2^(-S)\<close> is lost, where GMP would keep it.
  GMP stops the program on a division by zero and on the square root of a negative
  number; these are outside the engine, which yields \<open>0\<close> there, and no run below
  reaches them.
\<close>

fun limb_count :: "nat \<Rightarrow> int \<Rightarrow> int" where
  "limb_count 0 m = 0"
| "limb_count (Suc f) m = (if m \<le> 0 then 0 else 1 + limb_count f (drop_bit 64 m))"

fun bitlen_aux :: "nat \<Rightarrow> int \<Rightarrow> int" where
  "bitlen_aux 0 n = 0"
| "bitlen_aux (Suc f) n = (if n \<le> 0 then 0 else 1 + bitlen_aux f (drop_bit 1 n))"

definition top_limb :: "int \<Rightarrow> int \<Rightarrow> int" where
  "top_limb c m = 64 * (c - 1) + bitlen_aux 64 (drop_bit (nat (64 * (c - 1))) m)"

definition bitlen :: "int \<Rightarrow> int" where
  "bitlen m = (if m \<le> 0 then 0 else top_limb (limb_count 64 m) m)"

definition limbs_kept :: "mp_bitcnt_t \<Rightarrow> int" where
  "limbs_kept p = (max 53 (uint p) + 127) div 64 + 1"

text \<open>Shifting a magnitude right, towards zero, and cutting \<open>c\<close> low limbs off.\<close>

definition tshift :: "nat \<Rightarrow> int \<Rightarrow> int" where
  "tshift k m = (if m < 0 then - drop_bit k (- m) else drop_bit k m)"

definition cut_limbs :: "int \<Rightarrow> int \<Rightarrow> int" where
  "cut_limbs c m = (if c \<le> 0 then m else push_bit (nat (64 * c)) (tshift (nat (64 * c)) m))"

definition limb_trunc :: "mp_bitcnt_t \<Rightarrow> int \<Rightarrow> int" where
  "limb_trunc p m = cut_limbs (limb_count 64 \<bar>m\<bar> - limbs_kept p) m"

text \<open>
  Division towards zero; a divisor that is a power of two is a shift (this only saves
  time).
\<close>

definition udiv_by :: "int \<Rightarrow> int \<Rightarrow> int \<Rightarrow> int" where
  "udiv_by k a b = (if b = push_bit (nat k) 1 then drop_bit (nat k) a else a div b)"

definition udiv :: "int \<Rightarrow> int \<Rightarrow> int" where
  "udiv a b = udiv_by (bitlen b - 1) a b"

definition tdiv :: "int \<Rightarrow> int \<Rightarrow> int" where
  "tdiv a b =
     (if b = 0 then 0 else if (a < 0) = (b < 0) then udiv \<bar>a\<bar> \<bar>b\<bar> else - udiv \<bar>a\<bar> \<bar>b\<bar>)"

text \<open>
  The integer square root, digit by digit: \<open>d\<close> runs down the powers of 4, \<open>res\<close>
  collects the root and \<open>n\<close> is what is left of the radicand.
\<close>

fun sqrt_loop :: "nat \<Rightarrow> int \<Rightarrow> int \<Rightarrow> int \<Rightarrow> int" where
  "sqrt_loop 0 n res d = res"
| "sqrt_loop (Suc f) n res d =
     (if d = 0 then res
      else if res + d \<le> n
        then sqrt_loop f (n - (res + d)) (drop_bit 1 res + d) (drop_bit 2 d)
        else sqrt_loop f n (drop_bit 1 res) (drop_bit 2 d))"

definition isqrt :: "int \<Rightarrow> int" where
  "isqrt n = (if n \<le> 0 then 0 else sqrt_loop 512 n 0 (push_bit (nat (2 * ((bitlen n - 1) div 2))) 1))"

definition fx_set :: "nat \<Rightarrow> mp_bitcnt_t \<Rightarrow> int \<Rightarrow> int" where
  "fx_set S p m = limb_trunc p m"

definition fx_set_d :: "nat \<Rightarrow> mp_bitcnt_t \<Rightarrow> double \<Rightarrow> int" where
  "fx_set_d S p d = limb_trunc p (tdiv (push_bit S (fst (quotient_of d))) (snd (quotient_of d)))"

definition fx_set_si :: "nat \<Rightarrow> mp_bitcnt_t \<Rightarrow> int \<Rightarrow> int" where
  "fx_set_si S p i = limb_trunc p (push_bit S i)"

definition fx_set_ui :: "nat \<Rightarrow> mp_bitcnt_t \<Rightarrow> nat \<Rightarrow> int" where
  "fx_set_ui S p u = limb_trunc p (push_bit S (int u))"

definition digit_val :: "char \<Rightarrow> int option" where
  "digit_val c = (let n = int (of_char c) - 48 in if 0 \<le> n \<and> n \<le> 9 then Some n else None)"

fun parse_digits :: "int \<Rightarrow> int \<Rightarrow> string \<Rightarrow> int option" where
  "parse_digits b acc [] = Some acc"
| "parse_digits b acc (c # cs) =
     (case digit_val c of
        None \<Rightarrow> None
      | Some d \<Rightarrow> if d < b then parse_digits b (acc * b + d) cs else None)"

definition fx_set_str :: "nat \<Rightarrow> mp_bitcnt_t \<Rightarrow> string \<Rightarrow> int \<Rightarrow> int option" where
  "fx_set_str S p s b =
     (if s = [] \<or> b < 2 \<or> 10 < b then None
      else map_option (\<lambda>n. limb_trunc p (push_bit S n)) (parse_digits b 0 s))"

definition fx_add :: "nat \<Rightarrow> mp_bitcnt_t \<Rightarrow> int \<Rightarrow> int \<Rightarrow> int" where
  "fx_add S p x y = limb_trunc p (x + y)"

definition fx_sub :: "nat \<Rightarrow> mp_bitcnt_t \<Rightarrow> int \<Rightarrow> int \<Rightarrow> int" where
  "fx_sub S p x y = limb_trunc p (x - y)"

definition fx_mul :: "nat \<Rightarrow> mp_bitcnt_t \<Rightarrow> int \<Rightarrow> int \<Rightarrow> int" where
  "fx_mul S p x y = limb_trunc p (tshift S (x * y))"

definition fx_div :: "nat \<Rightarrow> mp_bitcnt_t \<Rightarrow> int \<Rightarrow> int \<Rightarrow> int" where
  "fx_div S p x y = limb_trunc p (tdiv (push_bit S x) y)"

definition fx_sqrt :: "nat \<Rightarrow> mp_bitcnt_t \<Rightarrow> int \<Rightarrow> int" where
  "fx_sqrt S p x = limb_trunc p (isqrt (push_bit S x))"

definition fx_abs :: "nat \<Rightarrow> mp_bitcnt_t \<Rightarrow> int \<Rightarrow> int" where
  "fx_abs S p x = limb_trunc p \<bar>x\<bar>"

definition fx_neg :: "nat \<Rightarrow> mp_bitcnt_t \<Rightarrow> int \<Rightarrow> int" where
  "fx_neg S p x = limb_trunc p (- x)"

definition fx_floor :: "nat \<Rightarrow> mp_bitcnt_t \<Rightarrow> int \<Rightarrow> int" where
  "fx_floor S p x = limb_trunc p (push_bit S (drop_bit S x))"

definition fx_mul_2exp :: "nat \<Rightarrow> mp_bitcnt_t \<Rightarrow> int \<Rightarrow> mp_bitcnt_t \<Rightarrow> int" where
  "fx_mul_2exp S p x n = limb_trunc p (push_bit (unat n) x)"

definition fx_div_2exp :: "nat \<Rightarrow> mp_bitcnt_t \<Rightarrow> int \<Rightarrow> mp_bitcnt_t \<Rightarrow> int" where
  "fx_div_2exp S p x n = limb_trunc p (tshift (unat n) x)"

definition fx_cmp :: "int \<Rightarrow> int \<Rightarrow> int" where
  "fx_cmp x y = (if x < y then - 1 else if x = y then 0 else 1)"

definition fx_get_si :: "nat \<Rightarrow> int \<Rightarrow> mp_exp_t" where
  "fx_get_si S x = word_of_int (tshift S x)"

definition fx_get_d_2exp :: "nat \<Rightarrow> int \<Rightarrow> mp_exp_t" where
  "fx_get_d_2exp S x = word_of_int (if x = 0 then 0 else bitlen \<bar>x\<bar> - int S)"

definition fx_engine :: "(mp_bitcnt_t \<Rightarrow> mp_bitcnt_t) \<Rightarrow> nat \<Rightarrow> int engine" where
  "fx_engine g S =
    \<lparr>e_grant = g,
     e_zero = 0,
     e_set = fx_set S,
     e_set_d = fx_set_d S,
     e_set_si = fx_set_si S,
     e_set_ui = fx_set_ui S,
     e_set_str = fx_set_str S,
     e_add = fx_add S,
     e_sub = fx_sub S,
     e_mul = fx_mul S,
     e_div = fx_div S,
     e_sqrt = fx_sqrt S,
     e_abs = fx_abs S,
     e_neg = fx_neg S,
     e_floor = fx_floor S,
     e_mul_2exp = fx_mul_2exp S,
     e_div_2exp = fx_div_2exp S,
     e_cmp = fx_cmp,
     e_get_si = fx_get_si S,
     e_get_d_2exp = fx_get_d_2exp S\<rparr>"

text \<open>
  A magnitude that can be written with \<open>p\<close> significant bits: what the result of
  rounding to \<open>p\<close> bits is, whatever the direction of the rounding.
\<close>

definition fits_bits :: "int \<Rightarrow> int \<Rightarrow> bool" where
  "fits_bits p m \<longleftrightarrow> bitlen \<bar>m\<bar> \<le> p \<or> drop_bit (nat (bitlen \<bar>m\<bar> - p)) \<bar>m\<bar> * 2 ^ nat (bitlen \<bar>m\<bar> - p) = \<bar>m\<bar>"

subsection \<open>The exact engine\<close>

text \<open>
  Arithmetic on the reals without any rounding, every requested precision granted as
  it is: the engine in which the algorithms can be compared with their mathematical
  description.
\<close>

definition exact_cmp :: "real \<Rightarrow> real \<Rightarrow> int" where
  "exact_cmp x y = (if x < y then - 1 else if x = y then 0 else 1)"

definition exact_get_si :: "real \<Rightarrow> mp_exp_t" where
  "exact_get_si x = word_of_int (if 0 \<le> x then \<lfloor>x\<rfloor> else \<lceil>x\<rceil>)"

definition exact_get_d_2exp :: "real \<Rightarrow> mp_exp_t" where
  "exact_get_d_2exp x = word_of_int (if x = 0 then 0 else \<lfloor>log 2 \<bar>x\<bar>\<rfloor> + 1)"

definition exact_set_str :: "string \<Rightarrow> int \<Rightarrow> real option" where
  "exact_set_str s b =
     (if s = [] \<or> b < 2 \<or> 10 < b then None else map_option of_int (parse_digits b 0 s))"

definition exact_engine :: "real engine" where
  "exact_engine =
    \<lparr>e_grant = (\<lambda>n. n),
     e_zero = 0,
     e_set = (\<lambda>p v. v),
     e_set_d = (\<lambda>p d. of_rat d),
     e_set_si = (\<lambda>p i. of_int i),
     e_set_ui = (\<lambda>p u. of_nat u),
     e_set_str = (\<lambda>p. exact_set_str),
     e_add = (\<lambda>p x y. x + y),
     e_sub = (\<lambda>p x y. x - y),
     e_mul = (\<lambda>p x y. x * y),
     e_div = (\<lambda>p x y. x / y),
     e_sqrt = (\<lambda>p x. sqrt x),
     e_abs = (\<lambda>p x. \<bar>x\<bar>),
     e_neg = (\<lambda>p x. - x),
     e_floor = (\<lambda>p x. of_int \<lfloor>x\<rfloor>),
     e_mul_2exp = (\<lambda>p x n. x * 2 ^ unat n),
     e_div_2exp = (\<lambda>p x n. x / 2 ^ unat n),
     e_cmp = exact_cmp,
     e_get_si = exact_get_si,
     e_get_d_2exp = exact_get_d_2exp\<rparr>"

section \<open>The algorithms in exact arithmetic\<close>

text \<open>
  The iteration for \<open>pi\<close> as the specification words it (4.3): start from
  \<open>a = 1\<close>, \<open>b = 1/sqrt 2\<close>, \<open>t = 1/4\<close>, \<open>p = 1\<close>; each iteration sets
  \<open>a' = (a+b)/2\<close>, \<open>b' = sqrt (a b)\<close>, \<open>t' = t - p (a - a')\<^sup>2\<close>, \<open>p' = 2 p\<close>.
\<close>

primrec gl_seq :: "nat \<Rightarrow> real \<times> real \<times> real \<times> real" where
  "gl_seq 0 = (1, 1 / sqrt 2, 1 / 4, 1)"
| "gl_seq (Suc n) =
     (case gl_seq n of (a, b, t, p) \<Rightarrow>
        ((a + b) / 2, sqrt (a * b), t - p * (a - (a + b) / 2)\<^sup>2, 2 * p))"

text \<open>
  The estimate \<open>(a+b)\<^sup>2 / (4 t)\<close> after \<open>n\<close> iterations. Before the first iteration
  there is no estimate; the variable that will hold it is 0.
\<close>

definition gl_estimate :: "nat \<Rightarrow> real" where
  "gl_estimate n = (if n = 0 then 0 else case gl_seq n of (a, b, t, p) \<Rightarrow> (a + b)\<^sup>2 / (4 * t))"

text \<open>
  Stop at the first iteration whose estimate is closer than \<open>eps\<close> to the estimate
  before it, and return that estimate; at most \<open>fuel\<close> iterations are followed.
\<close>

fun gl_search :: "real \<Rightarrow> nat \<Rightarrow> nat \<Rightarrow> real option" where
  "gl_search eps 0 n = None"
| "gl_search eps (Suc fuel) n =
     (if \<bar>gl_estimate (Suc n) - gl_estimate n\<bar> < eps then Some (gl_estimate (Suc n))
      else gl_search eps fuel (Suc n))"

definition gauss_legendre :: "nat \<Rightarrow> nat \<Rightarrow> real option" where
  "gauss_legendre fuel p = gl_search (1 / 2 ^ p) fuel 0"

text \<open>
  The arithmetic-geometric mean iteration (4.3, \<open>log 2\<close>): from \<open>a = 1\<close> and
  \<open>b = b0\<close>, each iteration sets \<open>a' = (a+b)/2\<close>, \<open>b' = sqrt (a b)\<close>.
\<close>

primrec agm_seq :: "real \<Rightarrow> nat \<Rightarrow> real \<times> real" where
  "agm_seq b0 0 = (1, b0)"
| "agm_seq b0 (Suc n) = (case agm_seq b0 n of (a, b) \<Rightarrow> ((a + b) / 2, sqrt (a * b)))"

text \<open>
  Iterate until \<open>|a - b| < eps\<close>. The pair is tested before it is replaced, so the
  final \<open>a\<close> and \<open>b\<close> are the means of the first pair that passes the test.
\<close>

fun agm_search :: "real \<Rightarrow> real \<Rightarrow> nat \<Rightarrow> nat \<Rightarrow> (real \<times> real) option" where
  "agm_search eps b0 0 n = None"
| "agm_search eps b0 (Suc fuel) n =
     (case agm_seq b0 n of (a, b) \<Rightarrow>
        if \<bar>a - b\<bar> < eps then Some (agm_seq b0 (Suc n)) else agm_search eps b0 fuel (Suc n))"

text \<open>
  \<open>log 2\<close> at precision \<open>p\<close> with threshold \<open>eps\<close> and \<open>b0 = 2^(-shift)\<close>: the
  result is \<open>pi / (p a)\<close> for the final \<open>a\<close>, with \<open>pi\<close> from the iteration above at
  the same precision.
\<close>

definition log2_by_agm :: "nat \<Rightarrow> real \<Rightarrow> nat \<Rightarrow> nat \<Rightarrow> real option" where
  "log2_by_agm fuel eps shift p =
     (case agm_search eps (1 / 2 ^ shift) fuel 0 of
        None \<Rightarrow> None
      | Some ab \<Rightarrow>
          (case gauss_legendre fuel p of
             None \<Rightarrow> None
           | Some pi_v \<Rightarrow> Some (pi_v / (real p * fst ab))))"

text \<open>
  \<open>exp\<close> (4.5) in exact arithmetic. The backward recurrence
  \<open>E_i = 1 + r E_{i+1} / i\<close>, for \<open>i\<close> from \<open>l\<close> down to 1: \<open>taylor_back r l e\<close> is
  \<open>E_1\<close> when \<open>E_{l+1} = e\<close>. With \<open>y = |x|\<close> and \<open>e\<close> the binary exponent of \<open>y\<close>
  (\<open>y = d 2^e\<close>, \<open>1/2 \<le> d < 1\<close>): when \<open>e > 0\<close>, both \<open>y\<close> and \<open>log 2\<close> are divided by
  \<open>2^e\<close>, \<open>n\<close> is the floor of the quotient of the two, \<open>r\<close> is what is left of the
  scaled \<open>y\<close> after \<open>n\<close> times the scaled \<open>log 2\<close>, \<open>k = e\<close> and \<open>l = p / e\<close>; otherwise
  \<open>n = 0\<close>, \<open>r = y\<close>, \<open>k = 0\<close> and \<open>l = p\<close>. The result is \<open>E_1\<close> of the recurrence
  seeded with \<open>E_{l+1} = 1\<close>, squared \<open>k\<close> times, times \<open>2^n\<close>, and its reciprocal when
  \<open>x < 0\<close>. The integers \<open>e\<close>, \<open>k\<close>, \<open>l\<close>, \<open>n\<close> are machine integers as in the program.
\<close>

fun taylor_back :: "real \<Rightarrow> nat \<Rightarrow> real \<Rightarrow> real" where
  "taylor_back r 0 e = e"
| "taylor_back r (Suc i) e = taylor_back r i (1 + r * e / real (Suc i))"

definition exp_value :: "mp_bitcnt_t \<Rightarrow> real \<Rightarrow> real \<Rightarrow> error + real" where
  "exp_value p ln2 x =
    (let y = \<bar>x\<bar>;
         e = exact_get_d_2exp y;
         k = (if 0 < sint e then e else 0);
         n = (if 0 < sint e then word_of_int \<lfloor>(y / 2 ^ unat e) / (ln2 / 2 ^ unat e)\<rfloor> else 0 :: mp_exp_t);
         r = (if 0 < sint e then y / 2 ^ unat e - of_int (sint n) * (ln2 / 2 ^ unat e) else y);
         l = (if 0 < sint e then p div e else p);
         v = taylor_back r (nat (sint (ucast l :: c_int))) 1 ^ (2 ^ nat (sint k));
         v = (if 0 < sint n then v * 2 ^ unat n else if sint n < 0 then v / 2 ^ unat (- n) else v)
     in if 2 ^ 31 \<le> sint k then Inl Signed_overflow
        else Inr (if x < 0 then 1 / v else v))"

definition exp_exact :: "nat \<Rightarrow> mp_bitcnt_t \<Rightarrow> real \<Rightarrow> (error + real) option" where
  "exp_exact fuel p x =
     map_option (\<lambda>ln2. exp_value p ln2 x)
       (log2_by_agm fuel (1 / 2 ^ unat p) (unat (p div 2 - 2)) (unat p))"

subsection \<open>\<open>exp\<close> as the specification words it\<close>

text \<open>
  The specification (4.5) words the reduction and the recurrence of \<open>exp\<close> differently
  from the program: \<open>n = floor((x/2^k) / log2)\<close> and \<open>r = x/2^k - n log2\<close> with
  \<open>log 2\<close> itself, and \<open>E_i = 1 + r E_{i+1} / (i+1)\<close>. The three definitions below
  follow those words and are otherwise the program's; they are what the program is
  compared with. The specification does not say what happens when no halving is
  needed (\<open>k \<le> 0\<close>); there the definitions do what the program does.
\<close>

definition exp_reduce_claimed :: "'v engine \<Rightarrow> mp_bitcnt_t \<Rightarrow> mp_bitcnt_t \<Rightarrow> 'v mpf_class \<Rightarrow> 'v mpf_class
    \<Rightarrow> 'v mpf_class \<Rightarrow> 'v exp_red" where
  "exp_reduce_claimed E dp req_precision r x_v log2_v =
    (let k = mpf_get_d_2exp E x_v
     in if 0 < sint k then
          (let x_v = div_2exp E x_v k;
               n = get_si E (floor_mpf E (operator_div E x_v log2_v));
               r = assign E r (operator_sub E x_v (operator_si_mul E dp (sint n) log2_v));
               l = req_precision div k
           in \<lparr>red_r = r, red_k = k, red_l = l, red_n = n\<rparr>)
        else \<lparr>red_r = assign E r x_v, red_k = 0, red_l = req_precision, red_n = 0\<rparr>)"

fun exp_taylor_claimed :: "'v engine \<Rightarrow> mp_bitcnt_t \<Rightarrow> 'v mpf_class \<Rightarrow> 'v mpf_class \<Rightarrow> nat \<Rightarrow> 'v mpf_class
    \<Rightarrow> 'v mpf_class" where
  "exp_taylor_claimed E req_precision one r 0 exp_v = exp_v"
| "exp_taylor_claimed E req_precision one r (Suc i) exp_v =
     exp_taylor_claimed E req_precision one r i
       (assign E exp_v
          (operator_add E one
             (operator_div E (operator_mul E r exp_v) (mpf_class_si_prec E (int (Suc i) + 1) req_precision))))"

definition exp_body_claimed :: "'v engine \<Rightarrow> mp_bitcnt_t \<Rightarrow> 'v mpf_class \<Rightarrow> 'v mpf_class
    \<Rightarrow> error + 'v mpf_class" where
  "exp_body_claimed E dp x log2_r =
    (let req_precision = get_prec x;
         zero = mpf_class_d_prec E 0 req_precision;
         one = mpf_class_d_prec E 1 req_precision;
         exp_v = mpf_class_copy E one;
         x_v = mpf_class_copy E x;
         r = mpf_class_copy E zero;
         log2_v = mpf_class_move log2_r;
         x_v = (if operator_lt E x zero then assign E x_v (operator_neg E x_v) else x_v);
         red = exp_reduce_claimed E dp req_precision r x_v log2_v;
         i = (ucast (red_l red) :: c_int);
         exp_v = exp_taylor_claimed E req_precision one (red_r red) (nat (sint i)) exp_v
     in if 2 ^ 31 \<le> sint (red_k red) then Inl Signed_overflow
        else
         (let exp_v = exp_square E (nat (sint (red_k red))) exp_v;
              exp_v = (if 0 < sint (red_n red) then mul_2exp E exp_v (red_n red) else exp_v);
              exp_v = (if sint (red_n red) < 0 then div_2exp E exp_v (- red_n red) else exp_v);
              exp_v = (if operator_lt E x zero then assign E exp_v (operator_div E one exp_v)
                       else exp_v)
          in Inr exp_v))"

definition exp_claimed :: "'v engine \<Rightarrow> nat \<Rightarrow> mp_bitcnt_t \<Rightarrow> 'v mpf_class \<Rightarrow> (error + 'v mpf_class) option" where
  "exp_claimed E fuel dp x =
    (case const_pi_prec E fuel (get_prec x) of
       None \<Rightarrow> None
     | Some (Inl e) \<Rightarrow> Some (Inl e)
     | Some (Inr pi_r) \<Rightarrow>
        (case const_log2_prec E fuel (get_prec x) of
           None \<Rightarrow> None
         | Some (Inl e) \<Rightarrow> Some (Inl e)
         | Some (Inr log2_r) \<Rightarrow> Some (exp_body_claimed E dp x log2_r)))"

section \<open>Sample inputs\<close>

text \<open>
  The limb engine with 128 fractional bits and GMP's limb granularity of precisions,
  and the number 24 in a variable of precision 64.
\<close>

definition fx_limb :: "int engine" where
  "fx_limb = fx_engine limb_grant 128"

definition sample_x :: "int mpf_class" where
  "sample_x = \<lparr>mp_prec = 64, mp_val = push_bit 128 24\<rparr>"

text \<open>
  A program state under a default precision of 64 bits in which no cached constant has
  been computed yet.
\<close>

definition sample_state :: "int globals" where
  "sample_state =
     \<lparr>default_prec = 64, base = 10,
      pi_cached = \<lparr>mp_prec = 64, mp_val = 0\<rparr>, pi_calculated = False, calculated_pi_precision = 0,
      log2_cached = None, log2_calculated = False, calculated_log2_precision = 0\<rparr>"

section \<open>Precision propagation\<close>

lemma largerprec_max: "largerprec a b = max (get_prec a) (get_prec b)"
  by (auto simp: largerprec_def Let_def max_def)

lemma largerprec_granted:
  assumes "prec_granted E a" and "prec_granted E b"
  shows "e_grant E (largerprec a b) = largerprec a b"
  using assms
  by (auto simp: largerprec_def Let_def prec_granted_def get_prec_def mpf_get_prec_def)

text \<open>
  C1. In standard mode each of the binary operators \<open>+\<close>, \<open>-\<close>, \<open>*\<close>, \<open>/\<close> on two
  \<open>mpf_class\<close> values returns a newly initialised result whose precision is the larger
  of the two operands' precisions.
\<close>

theorem binary_operator_precision:
  assumes "prec_granted E a" and "prec_granted E b"
  shows "get_prec (operator_add E a b) = max (get_prec a) (get_prec b)
       \<and> get_prec (operator_sub E a b) = max (get_prec a) (get_prec b)
       \<and> get_prec (operator_mul E a b) = max (get_prec a) (get_prec b)
       \<and> get_prec (operator_div E a b) = max (get_prec a) (get_prec b)"
proof -
  have g: "e_grant E (largerprec a b) = largerprec a b"
    using assms by (rule largerprec_granted)
  have m: "largerprec a b = max (get_prec a) (get_prec b)"
    by (rule largerprec_max)
  have "get_prec (operator_add E a b) = e_grant E (largerprec a b)"
    by (simp add: operator_add_def Let_def mpf_add_def mpf_init2_def get_prec_def mpf_get_prec_def)
  moreover have "get_prec (operator_sub E a b) = e_grant E (largerprec a b)"
    by (simp add: operator_sub_def Let_def mpf_sub_def mpf_init2_def get_prec_def mpf_get_prec_def)
  moreover have "get_prec (operator_mul E a b) = e_grant E (largerprec a b)"
    by (simp add: operator_mul_def Let_def mpf_mul_def mpf_init2_def get_prec_def mpf_get_prec_def)
  moreover have "get_prec (operator_div E a b) = e_grant E (largerprec a b)"
    by (simp add: operator_div_def Let_def mpf_div_def mpf_init2_def get_prec_def mpf_get_prec_def)
  ultimately show ?thesis
    using g m by simp
qed


theorem binary_operator_precision_witness:
  "prec_granted fx_limb \<lparr>mp_prec = 64, mp_val = 3 * 2 ^ 128\<rparr>
   \<and> prec_granted fx_limb \<lparr>mp_prec = 128, mp_val = 5 * 2 ^ 128\<rparr>
   \<and> get_prec (operator_add fx_limb
          \<lparr>mp_prec = 64, mp_val = 3 * 2 ^ 128\<rparr> \<lparr>mp_prec = 128, mp_val = 5 * 2 ^ 128\<rparr>) = 128
   \<and> get_prec (operator_div fx_limb
          \<lparr>mp_prec = 64, mp_val = 3 * 2 ^ 128\<rparr> \<lparr>mp_prec = 128, mp_val = 5 * 2 ^ 128\<rparr>) = 128"
proof -
  have a: "prec_granted fx_limb \<lparr>mp_prec = 64, mp_val = 3 * 2 ^ 128\<rparr>"
    by (simp add: prec_granted_def fx_limb_def fx_engine_def limb_grant_def)
  have b: "prec_granted fx_limb \<lparr>mp_prec = 128, mp_val = 5 * 2 ^ 128\<rparr>"
    by (simp add: prec_granted_def fx_limb_def fx_engine_def limb_grant_def)
  show ?thesis
    using a b binary_operator_precision [OF a b]
    by (simp add: get_prec_def mpf_get_prec_def)
qed


section \<open>The cache of the constants\<close>

lemma const_pi_hit:
  assumes "pi_calculated st" and "calculated_pi_precision st = default_prec st"
  shows "const_pi E fuel st = Some (mpf_class_copy E (pi_cached st), st)"
  using assms by (simp add: const_pi_def Let_def mpf_get_default_prec_def)

lemma const_pi_miss:
  assumes "\<not> (pi_calculated st \<and> calculated_pi_precision st = default_prec st)"
  shows "const_pi E fuel st =
     (case pi_loop0 E (mpf_class_d E (default_prec st) 2) (mpf_class_d E (default_prec st) 4)
             (div_2exp E (mpf_class_copy E (mpf_class_d E (default_prec st) 1)) (default_prec st))
             fuel (pi_init0 E (default_prec st)) of
        None \<Rightarrow> None
      | Some s \<Rightarrow>
          Some (mpf_class_copy E
                  (assign E (assign E (pi_cached st) (mpf_class_default E (default_prec st))) (gl_tmp_pi s)),
                st\<lparr>pi_cached :=
                      assign E (assign E (pi_cached st) (mpf_class_default E (default_prec st))) (gl_tmp_pi s),
                    calculated_pi_precision := default_prec st,
                    pi_calculated := True\<rparr>))"
  using assms
  by (auto simp: const_pi_def Let_def mpf_get_default_prec_def split: option.splits)



section \<open>Precision inside the transcendental functions\<close>

subsection \<open>The precision of every result\<close>

lemma get_prec_eq: "get_prec x = mp_prec x"
  by (simp add: get_prec_def mpf_get_prec_def)

lemma prec_assign: "mp_prec (assign E x y) = e_grant E (mp_prec x)"
  by (simp add: assign_def operator_assign_def mpf_set_def mpf_init2_def mpf_get_prec_def)

lemma prec_copy: "mp_prec (mpf_class_copy E x) = e_grant E (mp_prec x)"
  by (simp add: mpf_class_copy_def mpf_set_def mpf_init2_def mpf_get_prec_def)

lemma prec_move: "mp_prec (mpf_class_move x) = mp_prec x"
  by (simp add: mpf_class_move_def)

lemma prec_binop:
  "mp_prec (operator_add E a b) = e_grant E (max (mp_prec a) (mp_prec b))"
  "mp_prec (operator_sub E a b) = e_grant E (max (mp_prec a) (mp_prec b))"
  "mp_prec (operator_mul E a b) = e_grant E (max (mp_prec a) (mp_prec b))"
  "mp_prec (operator_div E a b) = e_grant E (max (mp_prec a) (mp_prec b))"
  by (simp_all add: operator_add_def operator_sub_def operator_mul_def operator_div_def Let_def
      mpf_add_def mpf_sub_def mpf_mul_def mpf_div_def mpf_init2_def largerprec_max get_prec_eq)

lemma prec_unop:
  "mp_prec (sqrt_mpf E a) = e_grant E (mp_prec a)"
  "mp_prec (abs_mpf E a) = e_grant E (mp_prec a)"
  "mp_prec (floor_mpf E a) = e_grant E (mp_prec a)"
  "mp_prec (operator_neg E a) = e_grant E (mp_prec a)"
  by (simp_all add: sqrt_mpf_def abs_mpf_def floor_mpf_def operator_neg_def Let_def
      mpf_sqrt_def mpf_abs_def mpf_floor_def mpf_neg_def prec_copy)

lemma prec_2exp:
  "mp_prec (div_2exp E x n) = mp_prec x"
  "mp_prec (mul_2exp E x n) = mp_prec x"
  by (simp_all add: div_2exp_def mul_2exp_def mpf_div_2exp_def mpf_mul_2exp_def)

lemma prec_ctor_prec:
  "mp_prec (mpf_class_d_prec E d q) = e_grant E q"
  "mp_prec (mpf_class_si_prec E i q) = e_grant E q"
  "mp_prec (mpf_class_ui_prec E u q) = e_grant E q"
  by (simp_all add: mpf_class_d_prec_def mpf_class_si_prec_def mpf_class_ui_prec_def
      mpf_set_d_def mpf_set_si_def mpf_set_ui_def mpf_init2_def)

lemma prec_ctor_default:
  "mp_prec (mpf_class_default E dp) = dp"
  "mp_prec (mpf_class_d E dp d) = dp"
  "mp_prec (mpf_class_si E dp i) = dp"
  "mp_prec (mpf_class_ui E dp u) = dp"
  by (simp_all add: mpf_class_default_def mpf_class_d_def mpf_class_si_def mpf_class_ui_def
      mpf_set_d_def mpf_set_si_def mpf_set_ui_def mpf_init_def)

lemma prec_scalar:
  "mp_prec (operator_mul_si E dp x i) = dp"
  "mp_prec (operator_si_mul E dp i x) = dp"
  by (simp_all add: operator_mul_si_def operator_si_mul_def Let_def mpf_mul_def prec_ctor_default)

lemmas prec_simps = get_prec_eq prec_assign prec_copy prec_move prec_binop prec_unop prec_2exp prec_ctor_prec
  prec_ctor_default prec_scalar

text \<open>All variables of a loop at one precision.\<close>

lemma gl_step_prec:
  assumes g: "e_grant E p = p" and c: "mp_prec two = p" "mp_prec four = p"
    and i: "gl_all_prec p s"
  shows "gl_all_prec p (gl_step E two four s)"
  using assms by (simp add: gl_all_prec_def gl_step_def Let_def prec_simps)

lemma gl_iterate_prec:
  assumes g: "e_grant E p = p" and c: "mp_prec two = p" "mp_prec four = p"
    and i: "gl_all_prec p s"
  shows "gl_all_prec p ((gl_step E two four ^^ k) s)"
  by (induction k) (simp_all add: i gl_step_prec [OF g c])

lemma pi_init_prec:
  assumes g: "e_grant E p = p"
  shows "gl_all_prec p (pi_init E p)"
  using g by (simp add: gl_all_prec_def pi_init_def Let_def prec_simps)

lemma pi_loop_prec:
  assumes g: "e_grant E p = p" and c: "mp_prec two = p" "mp_prec four = p"
  shows "gl_all_prec p (fst st) \<Longrightarrow> mp_prec (snd st) = p
     \<Longrightarrow> pi_loop E two four epsilon n st = Some st'
     \<Longrightarrow> gl_all_prec p (fst st') \<and> mp_prec (snd st') = p"
proof (induction n arbitrary: st)
  case 0
  then show ?case by simp
next
  case (Suc n)
  let ?s = "gl_step E two four (fst st)"
  let ?tmp = "assign E (snd st) (abs_mpf E (operator_sub E (gl_tmp_pi ?s) (gl_pi_previous ?s)))"
  have s: "gl_all_prec p ?s"
    using Suc.prems(1) by (rule gl_step_prec [OF g c])
  have t: "mp_prec ?tmp = p"
    using Suc.prems(2) g by (simp add: prec_simps)
  show ?case
  proof (cases "operator_lt E ?tmp epsilon")
    case True
    with Suc.prems(3) have "st' = (?s, ?tmp)" by (simp add: Let_def)
    with s t show ?thesis by simp
  next
    case False
    with Suc.prems(3) have "pi_loop E two four epsilon n (?s, ?tmp) = Some st'"
      by (simp add: Let_def)
    with Suc.IH [of "(?s, ?tmp)"] s t show ?thesis by simp
  qed
qed

lemma pi_asserts_alt:
  "pi_asserts p calculated_pi s epsilon tmp \<longleftrightarrow>
     mp_prec calculated_pi = p \<and> gl_all_prec p s \<and> mp_prec epsilon = p \<and> mp_prec tmp = p"
  by (auto simp: pi_asserts_def gl_all_prec_def get_prec_eq)

lemma const_pi_prec_cases:
  assumes g: "e_grant E p = p"
  shows "const_pi_prec E n p = None \<or> (\<exists>r. const_pi_prec E n p = Some (Inr r) \<and> mp_prec r = p)"
proof -
  let ?zero = "mpf_class_d_prec E 0 p"
  let ?one = "mpf_class_d_prec E 1 p"
  let ?two = "mpf_class_d_prec E 2 p"
  let ?four = "mpf_class_d_prec E 4 p"
  let ?eps = "div_2exp E (assign E (mpf_class_copy E ?zero) ?one) p"
  have a0: "pi_asserts p (mpf_class_copy E ?zero) (pi_init E p) (mpf_class_copy E ?zero)
              (mpf_class_copy E ?zero)"
    using g pi_init_prec [OF g] by (simp add: pi_asserts_alt prec_simps)
  have c: "mp_prec ?two = p" "mp_prec ?four = p"
    using g by (simp_all add: prec_simps)
  have e: "mp_prec ?eps = p"
    using g by (simp add: prec_simps)
  show ?thesis
  proof (cases "pi_loop E ?two ?four ?eps n (pi_init E p, mpf_class_copy E ?zero)")
    case None
    with a0 show ?thesis by (simp add: const_pi_prec_def Let_def)
  next
    case (Some st')
    obtain s t where st': "st' = (s, t)" by (cases st')
    have i: "gl_all_prec p s \<and> mp_prec t = p"
      using pi_loop_prec [OF g c _ _ Some] pi_init_prec [OF g] g by (simp add: prec_simps st')
    then have a1: "pi_asserts p (assign E (mpf_class_copy E ?zero) (gl_tmp_pi s)) s ?eps t"
      using g e by (simp add: pi_asserts_alt prec_simps)
    have r: "const_pi_prec E n p = Some (Inr (assign E (mpf_class_copy E ?zero) (gl_tmp_pi s)))"
      using a0 a1 Some by (simp add: const_pi_prec_def Let_def st')
    show ?thesis
      using r g by (simp add: prec_simps)
  qed
qed

lemma agm_step_prec:
  assumes g: "e_grant E p = p" and c: "mp_prec two = p" and i: "agm_all_prec p s"
  shows "agm_all_prec p (agm_step E two s)"
  using assms by (simp add: agm_all_prec_def agm_step_def Let_def prec_simps)

lemma agm_iterate_prec:
  assumes g: "e_grant E p = p" and c: "mp_prec two = p" and i: "agm_all_prec p s"
  shows "agm_all_prec p ((agm_step E two ^^ k) s)"
  by (induction k) (simp_all add: i agm_step_prec [OF g c])

lemma agm_loop_prec:
  assumes g: "e_grant E p = p" and c: "mp_prec two = p"
  shows "agm_all_prec p s \<Longrightarrow> agm_loop E two epsilon n s = Some s' \<Longrightarrow> agm_all_prec p s'"
proof (induction n arbitrary: s)
  case 0
  then show ?case by simp
next
  case (Suc n)
  have s: "agm_all_prec p (agm_step E two s)"
    using Suc.prems(1) by (rule agm_step_prec [OF g c])
  show ?case
  proof (cases "agm_converged E epsilon s")
    case True
    with Suc.prems(2) s show ?thesis by simp
  next
    case False
    with Suc.prems(2) have "agm_loop E two epsilon n (agm_step E two s) = Some s'" by simp
    with Suc.IH s show ?thesis by blast
  qed
qed

lemma log2_loop_prec:
  assumes g: "e_grant E p = p" and c: "mp_prec two = p"
  shows "agm_all_prec p s \<Longrightarrow> log2_loop E p two epsilon n s = Some res
     \<Longrightarrow> \<exists>s'. res = Inr s' \<and> agm_all_prec p s'"
proof (induction n arbitrary: s)
  case 0
  then show ?case by simp
next
  case (Suc n)
  have s: "agm_all_prec p (agm_step E two s)"
    using Suc.prems(1) by (rule agm_step_prec [OF g c])
  then have b: "get_prec (agm_b_next (agm_step E two s)) = p"
    by (simp add: agm_all_prec_def)
  show ?case
  proof (cases "agm_converged E epsilon s")
    case True
    with Suc.prems(2) b s show ?thesis by auto
  next
    case False
    with Suc.prems(2) b have "log2_loop E p two epsilon n (agm_step E two s) = Some res" by simp
    with Suc.IH s show ?thesis by blast
  qed
qed

lemma log2_init_prec:
  assumes g: "e_grant E p = p"
  shows "agm_all_prec p (log2_init E p)"
  using g by (simp add: agm_all_prec_def log2_init_def Let_def prec_simps)

lemma log2_asserts_alt:
  "log2_asserts p log2_v epsilon tmp sum_v s one two \<longleftrightarrow>
     mp_prec log2_v = p \<and> mp_prec epsilon = p \<and> mp_prec tmp = p \<and> mp_prec sum_v = p \<and>
     agm_all_prec p s \<and> mp_prec one = p \<and> mp_prec two = p"
  by (auto simp: log2_asserts_def agm_all_prec_def get_prec_eq)

lemma const_log2_prec_cases:
  assumes g: "e_grant E p = p"
  shows "const_log2_prec E n p = None \<or> (\<exists>r. const_log2_prec E n p = Some (Inr r) \<and> mp_prec r = p)"
proof -
  let ?zero = "mpf_class_d_prec E 0 p"
  let ?one = "mpf_class_d_prec E 1 p"
  let ?two = "mpf_class_d_prec E 2 p"
  let ?eps = "div_2exp E (mpf_class_copy E ?one) p"
  let ?l = "mpf_class_copy E ?zero"
  let ?f = "mpf_class_ui_prec E (unat p) p"
  have c: "mp_prec ?two = p" using g by (simp add: prec_simps)
  have a0: "log2_asserts p ?l ?eps ?l (mpf_class_copy E ?one) (log2_init E p) ?one ?two"
    using g log2_init_prec [OF g] by (simp add: log2_asserts_alt prec_simps)
  show ?thesis
  proof (cases "log2_loop E p ?two ?eps n (log2_init E p)")
    case None
    with a0 show ?thesis by (simp add: const_log2_prec_def Let_def)
  next
    case (Some res)
    then obtain s where res: "res = Inr s" and s: "agm_all_prec p s"
      using log2_loop_prec [OF g c log2_init_prec [OF g]] by blast
    from const_pi_prec_cases [OF g, of n] show ?thesis
    proof
      assume "const_pi_prec E n p = None"
      with a0 Some res show ?thesis by (simp add: const_log2_prec_def Let_def)
    next
      assume "\<exists>r. const_pi_prec E n p = Some (Inr r) \<and> mp_prec r = p"
      then obtain r where r: "const_pi_prec E n p = Some (Inr r)" and rp: "mp_prec r = p" by blast
      let ?res = "assign E ?l (operator_div E r (operator_mul E ?f (agm_a s)))"
      have a1: "log2_asserts p ?res ?eps ?l (mpf_class_copy E ?one) s ?one ?two"
        using g s by (simp add: log2_asserts_alt prec_simps)
      have f: "get_prec ?f = p" "get_prec r = p"
        using g rp by (simp_all add: prec_simps)
      have "const_log2_prec E n p = Some (Inr ?res)"
        using a0 a1 f Some res r by (simp add: const_log2_prec_def Let_def)
      then show ?thesis
        using g by (simp add: prec_simps)
    qed
  qed
qed

lemma const_pi_prec_assert_fails:
  assumes "e_grant E (e_grant E p) \<noteq> p"
  shows "const_pi_prec E n p = Some (Inl Assertion_failed)"
  using assms by (simp add: const_pi_prec_def Let_def pi_asserts_def prec_simps)

lemma const_log2_prec_assert_fails:
  assumes "e_grant E (e_grant E p) \<noteq> p"
  shows "const_log2_prec E n p = Some (Inl Assertion_failed)"
proof -
  have "\<not> log2_asserts p (mpf_class_copy E (mpf_class_d_prec E 0 p))
          (div_2exp E (mpf_class_copy E (mpf_class_d_prec E 1 p)) p)
          (mpf_class_copy E (mpf_class_d_prec E 0 p)) (mpf_class_copy E (mpf_class_d_prec E 1 p))
          (log2_init E p) (mpf_class_d_prec E 1 p) (mpf_class_d_prec E 2 p)"
    using assms by (simp add: log2_asserts_def prec_simps)
  then show ?thesis
    by (simp add: const_log2_prec_def Let_def)
qed

lemma log_reduce_prec:
  assumes g: "e_grant E p = p"
    and i: "mp_prec b = p" "mp_prec s_v = p"
    and r: "log_reduce E p one four x b s_v = (m, s', b')"
  shows "mp_prec s' = p \<and> mp_prec b' = p"
  using assms by (auto simp: log_reduce_def Let_def prec_simps)

lemma log_asserts_alt:
  "log_asserts p log_v epsilon tmp s s_v pi_v log2_v \<longleftrightarrow>
     mp_prec log_v = p \<and> mp_prec epsilon = p \<and> mp_prec tmp = p \<and> agm_all_prec p s \<and>
     mp_prec s_v = p \<and> mp_prec pi_v = p \<and> mp_prec log2_v = p"
  by (auto simp: log_asserts_def agm_all_prec_def get_prec_eq)

lemma log_mpf_cases:
  fixes E :: "'v engine"
  assumes x: "prec_granted E x"
  shows "log_mpf E n dp x = None
    \<or> (\<exists>pi_v log2_v (m :: mp_exp_t) (s :: 'v agm_vars).
          const_pi_prec E n (get_prec x) = Some (Inr pi_v)
        \<and> const_log2_prec E n (get_prec x) = Some (Inr log2_v)
        \<and> log_mpf E n dp x =
            Some (Inr (assign E (mpf_class_copy E (mpf_class_d_prec E 0 (get_prec x)))
                   (operator_sub E
                      (operator_div E pi_v (operator_mul E (mpf_class_d_prec E 2 (get_prec x)) (agm_b s)))
                      (operator_si_mul E dp (sint m) log2_v)))))"
proof -
  define p where "p = get_prec x"
  have g: "e_grant E p = p"
    using x by (simp add: p_def prec_granted_def get_prec_eq)
  let ?zero = "mpf_class_d_prec E 0 p"
  let ?one = "mpf_class_d_prec E 1 p"
  let ?two = "mpf_class_d_prec E 2 p"
  let ?four = "mpf_class_d_prec E 4 p"
  let ?s0 = "\<lparr>agm_a = mpf_class_copy E ?one, agm_b = mpf_class_copy E ?one,
               agm_a_next = mpf_class_copy E ?zero, agm_b_next = mpf_class_copy E ?zero\<rparr>"
  let ?ecopy = "mpf_class_copy E ?one"
  let ?eps = "div_2exp E ?ecopy p"
  let ?l = "mpf_class_copy E ?zero"
  have s0: "agm_all_prec p ?s0"
    using g by (simp add: agm_all_prec_def prec_simps)
  have c: "mp_prec ?two = p"
    using g by (simp add: prec_simps)
  from const_pi_prec_cases [OF g, of n] show ?thesis
  proof
    assume "const_pi_prec E n p = None"
    then show ?thesis
      by (simp add: log_mpf_def Let_def p_def [symmetric])
  next
    assume "\<exists>r. const_pi_prec E n p = Some (Inr r) \<and> mp_prec r = p"
    then obtain pi_v where pi: "const_pi_prec E n p = Some (Inr pi_v)" and pip: "mp_prec pi_v = p"
      by blast
    from const_log2_prec_cases [OF g, of n] show ?thesis
    proof
      assume "const_log2_prec E n p = None"
      with pi show ?thesis
        by (simp add: log_mpf_def Let_def p_def [symmetric])
    next
      assume "\<exists>r. const_log2_prec E n p = Some (Inr r) \<and> mp_prec r = p"
      then obtain log2_v where l2: "const_log2_prec E n p = Some (Inr log2_v)"
        and l2p: "mp_prec log2_v = p"
        by blast
      have a0: "log_asserts p ?l ?ecopy ?l ?s0 (mpf_class_copy E ?one) (mpf_class_move pi_v)
                  (mpf_class_move log2_v)"
        using g s0 pip l2p by (simp add: log_asserts_alt prec_simps)
      obtain m s' b' where red: "log_reduce E p ?one ?four x (agm_b ?s0) (mpf_class_copy E ?one) = (m, s', b')"
        by (cases "log_reduce E p ?one ?four x (agm_b ?s0) (mpf_class_copy E ?one)") auto
      have redp: "mp_prec s' = p \<and> mp_prec b' = p"
        using log_reduce_prec [OF g _ _ red] g by (simp add: prec_simps)
      have s1: "agm_all_prec p (?s0\<lparr>agm_b := b'\<rparr>)"
        using s0 redp by (simp add: agm_all_prec_def get_prec_eq)
      show ?thesis
      proof (cases "agm_loop E ?two ?eps n (?s0\<lparr>agm_b := b'\<rparr>)")
        case None
        with pi l2 a0 red show ?thesis
          by (simp add: log_mpf_def Let_def p_def [symmetric])
      next
        case (Some s)
        have sp: "agm_all_prec p s"
          using agm_loop_prec [OF g c s1 Some] .
        let ?res = "assign E ?l
                   (operator_sub E
                      (operator_div E (mpf_class_move pi_v) (operator_mul E ?two (agm_b s)))
                      (operator_si_mul E dp (sint m) (mpf_class_move log2_v)))"
        have a1: "log_asserts p ?res ?eps ?l s s' (mpf_class_move pi_v) (mpf_class_move log2_v)"
          using g sp pip l2p redp by (simp add: log_asserts_alt prec_simps)
        have "log_mpf E n dp x = Some (Inr ?res)"
          using pi l2 a0 a1 red Some by (simp add: log_mpf_def Let_def p_def [symmetric])
        then show ?thesis
          using pi l2 unfolding p_def mpf_class_move_def by blast
      qed
    qed
  qed
qed

section \<open>The iterations in exact arithmetic\<close>

lemma exact_fields:
  "e_grant exact_engine q = q"
  "e_zero exact_engine = 0"
  "e_set exact_engine q v = v"
  "e_set_d exact_engine q d = of_rat d"
  "e_set_si exact_engine q i = of_int i"
  "e_set_ui exact_engine q u = of_nat u"
  "e_add exact_engine q x y = x + y"
  "e_sub exact_engine q x y = x - y"
  "e_mul exact_engine q x y = x * y"
  "e_div exact_engine q x y = x / y"
  "e_sqrt exact_engine q x = sqrt x"
  "e_abs exact_engine q x = \<bar>x\<bar>"
  "e_neg exact_engine q x = - x"
  "e_floor exact_engine q x = of_int \<lfloor>x\<rfloor>"
  "e_mul_2exp exact_engine q x n = x * 2 ^ unat n"
  "e_div_2exp exact_engine q x n = x / 2 ^ unat n"
  "e_cmp exact_engine = exact_cmp"
  "e_get_si exact_engine = exact_get_si"
  "e_get_d_2exp exact_engine = exact_get_d_2exp"
  by (simp_all add: exact_engine_def)

lemma exact_val:
  "mp_val (assign exact_engine x y) = mp_val y"
  "mp_val (mpf_class_copy exact_engine x) = mp_val x"
  "mp_val (mpf_class_move x) = mp_val x"
  "mp_val (operator_add exact_engine a b) = mp_val a + mp_val b"
  "mp_val (operator_sub exact_engine a b) = mp_val a - mp_val b"
  "mp_val (operator_mul exact_engine a b) = mp_val a * mp_val b"
  "mp_val (operator_div exact_engine a b) = mp_val a / mp_val b"
  "mp_val (sqrt_mpf exact_engine a) = sqrt (mp_val a)"
  "mp_val (abs_mpf exact_engine a) = \<bar>mp_val a\<bar>"
  "mp_val (floor_mpf exact_engine a) = of_int \<lfloor>mp_val a\<rfloor>"
  "mp_val (operator_neg exact_engine a) = - mp_val a"
  "mp_val (div_2exp exact_engine a n) = mp_val a / 2 ^ unat n"
  "mp_val (mul_2exp exact_engine a n) = mp_val a * 2 ^ unat n"
  "mp_val (mpf_class_d_prec exact_engine d q) = of_rat d"
  "mp_val (mpf_class_si_prec exact_engine i q) = of_int i"
  "mp_val (mpf_class_ui_prec exact_engine u q) = of_nat u"
  "mp_val (mpf_class_default exact_engine dp) = 0"
  "mp_val (mpf_class_d exact_engine dp d) = of_rat d"
  "mp_val (mpf_class_si exact_engine dp i) = of_int i"
  "mp_val (mpf_class_ui exact_engine dp u) = of_nat u"
  "mp_val (operator_si_mul exact_engine dp i a) = mp_val a * of_int i"
  by (simp_all add: assign_def operator_assign_def mpf_class_copy_def mpf_class_move_def
      operator_add_def operator_sub_def operator_mul_def operator_div_def sqrt_mpf_def abs_mpf_def
      floor_mpf_def operator_neg_def div_2exp_def mul_2exp_def mpf_class_d_prec_def
      mpf_class_si_prec_def mpf_class_ui_prec_def mpf_class_default_def mpf_class_d_def
      mpf_class_si_def mpf_class_ui_def operator_si_mul_def operator_mul_si_def
      mpf_set_def mpf_init2_def mpf_init_def mpf_add_def mpf_sub_def mpf_mul_def mpf_div_def
      mpf_sqrt_def mpf_abs_def mpf_floor_def mpf_neg_def mpf_div_2exp_def mpf_mul_2exp_def
      mpf_set_d_def mpf_set_si_def mpf_set_ui_def Let_def exact_fields)

lemma exact_lt: "operator_lt exact_engine a b \<longleftrightarrow> mp_val a < mp_val b"
  by (simp add: operator_lt_def mpf_cmp_def exact_fields exact_cmp_def)

lemma mpf_eqI: "mp_prec (x :: 'v mpf_t) = q \<Longrightarrow> mp_val x = v \<Longrightarrow> x = \<lparr>mp_prec = q, mp_val = v\<rparr>"
  by (cases x) simp

text \<open>What the variables of the \<open>pi\<close> loop hold after \<open>n\<close> passes.\<close>

definition gl_holds :: "mp_bitcnt_t \<Rightarrow> nat \<Rightarrow> real gl_vars \<Rightarrow> bool" where
  "gl_holds p n s \<longleftrightarrow>
     gl_all_prec p s
     \<and> (mp_val (gl_a s), mp_val (gl_b s), mp_val (gl_t s), mp_val (gl_p s)) = gl_seq n
     \<and> mp_val (gl_tmp_pi s) = gl_estimate n"

lemma gl_step_exact:
  assumes c: "mp_prec two = p" "mp_val two = 2" "mp_prec four = p" "mp_val four = 4"
    and h: "gl_holds p n s"
  shows "gl_holds p (Suc n) (gl_step exact_engine two four s)
       \<and> mp_val (gl_pi_previous (gl_step exact_engine two four s)) = gl_estimate n"
proof -
  have g: "e_grant exact_engine p = p" by (simp add: exact_fields)
  have pr: "gl_all_prec p (gl_step exact_engine two four s)"
    using h by (intro gl_step_prec [OF g c(1) c(3)]) (simp add: gl_holds_def)
  obtain a b t q where sq: "gl_seq n = (a, b, t, q)"
    by (cases "gl_seq n") auto
  have v: "mp_val (gl_a s) = a" "mp_val (gl_b s) = b" "mp_val (gl_t s) = t" "mp_val (gl_p s) = q"
    using h sq by (simp_all add: gl_holds_def)
  have e: "mp_val (gl_tmp_pi s) = gl_estimate n"
    using h by (simp add: gl_holds_def)
  have 1: "mp_val (gl_a (gl_step exact_engine two four s)) = (a + b) / 2"
    by (simp add: gl_step_def Let_def exact_val v c)
  have 2: "mp_val (gl_b (gl_step exact_engine two four s)) = sqrt (a * b)"
    by (simp add: gl_step_def Let_def exact_val v c)
  have 3: "mp_val (gl_t (gl_step exact_engine two four s)) = t - q * (a - (a + b) / 2)\<^sup>2"
    by (simp add: gl_step_def Let_def exact_val v c power2_eq_square)
  have 4: "mp_val (gl_p (gl_step exact_engine two four s)) = 2 * q"
    by (simp add: gl_step_def Let_def exact_val v c)
  have 5: "mp_val (gl_tmp_pi (gl_step exact_engine two four s))
         = ((a + b) / 2 + sqrt (a * b))\<^sup>2 / (4 * (t - q * (a - (a + b) / 2)\<^sup>2))"
    by (simp add: gl_step_def Let_def exact_val v c power2_eq_square)
  have 6: "mp_val (gl_pi_previous (gl_step exact_engine two four s)) = gl_estimate n"
    by (simp add: gl_step_def Let_def exact_val e)
  have 7: "gl_estimate (Suc n)
         = ((a + b) / 2 + sqrt (a * b))\<^sup>2 / (4 * (t - q * (a - (a + b) / 2)\<^sup>2))"
    by (simp add: gl_estimate_def sq)
  show ?thesis
    using pr 1 2 3 4 5 6 7 by (simp add: gl_holds_def sq)
qed

lemma pi_loop_exact:
  assumes c: "mp_prec two = p" "mp_val two = 2" "mp_prec four = p" "mp_val four = 4"
  shows "gl_holds p n (fst st)
     \<Longrightarrow> map_option (\<lambda>r. mp_val (gl_tmp_pi (fst r))) (pi_loop exact_engine two four epsilon fuel st)
         = gl_search (mp_val epsilon) fuel n"
proof (induction fuel arbitrary: n st)
  case 0
  then show ?case by simp
next
  case (Suc fuel)
  let ?s = "gl_step exact_engine two four (fst st)"
  let ?tmp = "assign exact_engine (snd st) (abs_mpf exact_engine (operator_sub exact_engine (gl_tmp_pi ?s) (gl_pi_previous ?s)))"
  have h: "gl_holds p (Suc n) ?s" and pv: "mp_val (gl_pi_previous ?s) = gl_estimate n"
    using gl_step_exact [OF c Suc.prems] by simp_all
  have e: "mp_val (gl_tmp_pi ?s) = gl_estimate (Suc n)"
    using h by (simp add: gl_holds_def)
  have t: "operator_lt exact_engine ?tmp epsilon
            \<longleftrightarrow> \<bar>gl_estimate (Suc n) - gl_estimate n\<bar> < mp_val epsilon"
    by (simp add: exact_lt exact_val e pv)
  show ?case
  proof (cases "\<bar>gl_estimate (Suc n) - gl_estimate n\<bar> < mp_val epsilon")
    case True
    then show ?thesis using t e by (simp add: Let_def)
  next
    case False
    then show ?thesis
      using t Suc.IH [of "Suc n" "(?s, ?tmp)"] h by (simp add: Let_def)
  qed
qed

lemma pi_loop0_exact:
  assumes c: "mp_prec two = p" "mp_val two = 2" "mp_prec four = p" "mp_val four = 4"
  shows "gl_holds p n s
     \<Longrightarrow> map_option (\<lambda>r. mp_val (gl_tmp_pi r)) (pi_loop0 exact_engine two four epsilon fuel s)
         = gl_search (mp_val epsilon) fuel n"
proof (induction fuel arbitrary: n s)
  case 0
  then show ?case by simp
next
  case (Suc fuel)
  let ?s = "gl_step exact_engine two four s"
  have h: "gl_holds p (Suc n) ?s" and pv: "mp_val (gl_pi_previous ?s) = gl_estimate n"
    using gl_step_exact [OF c Suc.prems] by simp_all
  have e: "mp_val (gl_tmp_pi ?s) = gl_estimate (Suc n)"
    using h by (simp add: gl_holds_def)
  have t: "operator_lt exact_engine (abs_mpf exact_engine (operator_sub exact_engine (gl_tmp_pi ?s) (gl_pi_previous ?s))) epsilon
            \<longleftrightarrow> \<bar>gl_estimate (Suc n) - gl_estimate n\<bar> < mp_val epsilon"
    by (simp add: exact_lt exact_val e pv)
  show ?case
  proof (cases "\<bar>gl_estimate (Suc n) - gl_estimate n\<bar> < mp_val epsilon")
    case True
    then show ?thesis using t e by (simp add: Let_def)
  next
    case False
    then show ?thesis
      using t Suc.IH [of "Suc n" ?s] h by (simp add: Let_def)
  qed
qed

lemma const_pi_prec_eq:
  assumes g: "e_grant E p = p"
  shows "const_pi_prec E n p =
     map_option (\<lambda>r. Inr (assign E (mpf_class_copy E (mpf_class_d_prec E 0 p)) (gl_tmp_pi (fst r))))
       (pi_loop E (mpf_class_d_prec E 2 p) (mpf_class_d_prec E 4 p)
          (div_2exp E (assign E (mpf_class_copy E (mpf_class_d_prec E 0 p)) (mpf_class_d_prec E 1 p)) p)
          n (pi_init E p, mpf_class_copy E (mpf_class_d_prec E 0 p)))"
proof -
  let ?zero = "mpf_class_d_prec E 0 p"
  let ?one = "mpf_class_d_prec E 1 p"
  let ?two = "mpf_class_d_prec E 2 p"
  let ?four = "mpf_class_d_prec E 4 p"
  let ?eps = "div_2exp E (assign E (mpf_class_copy E ?zero) ?one) p"
  have a0: "pi_asserts p (mpf_class_copy E ?zero) (pi_init E p) (mpf_class_copy E ?zero)
              (mpf_class_copy E ?zero)"
    using g pi_init_prec [OF g] by (simp add: pi_asserts_alt prec_simps)
  have c: "mp_prec ?two = p" "mp_prec ?four = p"
    using g by (simp_all add: prec_simps)
  have e: "mp_prec ?eps = p"
    using g by (simp add: prec_simps)
  show ?thesis
  proof (cases "pi_loop E ?two ?four ?eps n (pi_init E p, mpf_class_copy E ?zero)")
    case None
    with a0 show ?thesis by (simp add: const_pi_prec_def Let_def)
  next
    case (Some st')
    obtain s t where st': "st' = (s, t)" by (cases st')
    have i: "gl_all_prec p s \<and> mp_prec t = p"
      using pi_loop_prec [OF g c _ _ Some] pi_init_prec [OF g] g by (simp add: prec_simps st')
    then have a1: "pi_asserts p (assign E (mpf_class_copy E ?zero) (gl_tmp_pi s)) s ?eps t"
      using g e by (simp add: pi_asserts_alt prec_simps)
    show ?thesis
      using a0 a1 Some by (simp add: const_pi_prec_def Let_def st')
  qed
qed

lemma pi_init_exact: "gl_holds p 0 (pi_init exact_engine p)"
proof -
  have "gl_all_prec p (pi_init exact_engine p)"
    by (rule pi_init_prec) (simp add: exact_fields)
  then show ?thesis
    by (simp add: gl_holds_def gl_estimate_def pi_init_def Let_def exact_val of_rat_divide)
qed

lemma pi_init0_exact: "gl_holds dp 0 (pi_init0 exact_engine dp)"
  by (simp add: gl_holds_def gl_all_prec_def gl_estimate_def pi_init0_def Let_def exact_val
      prec_simps exact_fields of_rat_divide)

lemma const_pi_prec_exact:
  "const_pi_prec exact_engine fuel p =
     map_option (\<lambda>v. Inr \<lparr>mp_prec = p, mp_val = v\<rparr>) (gauss_legendre fuel (unat p))"
proof -
  let ?zero = "mpf_class_d_prec exact_engine 0 p"
  let ?two = "mpf_class_d_prec exact_engine 2 p"
  let ?four = "mpf_class_d_prec exact_engine 4 p"
  let ?eps = "div_2exp exact_engine (assign exact_engine (mpf_class_copy exact_engine ?zero)
                (mpf_class_d_prec exact_engine 1 p)) p"
  define L where "L = pi_loop exact_engine ?two ?four ?eps fuel
                        (pi_init exact_engine p, mpf_class_copy exact_engine ?zero)"
  have g: "e_grant exact_engine p = p" by (simp add: exact_fields)
  have c: "mp_prec ?two = p" "mp_val ?two = 2" "mp_prec ?four = p" "mp_val ?four = 4"
    by (simp_all add: prec_simps exact_val exact_fields)
  have ev: "mp_val ?eps = 1 / 2 ^ unat p"
    by (simp add: exact_val)
  have r: "assign exact_engine (mpf_class_copy exact_engine ?zero) x
         = \<lparr>mp_prec = p, mp_val = mp_val x\<rparr>" for x
    by (rule mpf_eqI) (simp_all add: prec_simps exact_val exact_fields)
  have H: "map_option (\<lambda>r. mp_val (gl_tmp_pi (fst r))) L = gauss_legendre fuel (unat p)"
    unfolding L_def gauss_legendre_def
    using pi_loop_exact [OF c, of 0 "(pi_init exact_engine p, mpf_class_copy exact_engine ?zero)" ?eps fuel]
      pi_init_exact [of p] ev by simp
  have "const_pi_prec exact_engine fuel p
          = map_option (\<lambda>r. Inr (assign exact_engine (mpf_class_copy exact_engine ?zero)
                                    (gl_tmp_pi (fst r)))) L"
    unfolding L_def by (rule const_pi_prec_eq [OF g])
  also have "\<dots> = map_option (\<lambda>v. Inr \<lparr>mp_prec = p, mp_val = v\<rparr>)
                     (map_option (\<lambda>r. mp_val (gl_tmp_pi (fst r))) L)"
    by (cases L) (simp_all add: r)
  finally show ?thesis
    by (simp only: H)
qed

lemma const_pi_exact:
  "const_pi exact_engine fuel (st\<lparr>pi_calculated := False\<rparr>) =
     map_option
       (\<lambda>v. (\<lparr>mp_prec = mp_prec (pi_cached st), mp_val = v\<rparr>,
             st\<lparr>pi_cached := \<lparr>mp_prec = mp_prec (pi_cached st), mp_val = v\<rparr>,
                calculated_pi_precision := default_prec st, pi_calculated := True\<rparr>))
       (gauss_legendre fuel (unat (default_prec st)))"
proof -
  define dp where "dp = default_prec st"
  let ?two = "mpf_class_d exact_engine dp 2"
  let ?four = "mpf_class_d exact_engine dp 4"
  let ?eps = "div_2exp exact_engine (mpf_class_copy exact_engine (mpf_class_d exact_engine dp 1)) dp"
  define L where "L = pi_loop0 exact_engine ?two ?four ?eps fuel (pi_init0 exact_engine dp)"
  have c: "mp_prec ?two = dp" "mp_val ?two = 2" "mp_prec ?four = dp" "mp_val ?four = 4"
    by (simp_all add: prec_simps exact_val)
  have ev: "mp_val ?eps = 1 / 2 ^ unat dp"
    by (simp add: exact_val)
  have r: "assign exact_engine (assign exact_engine (pi_cached st) (mpf_class_default exact_engine dp)) x
         = \<lparr>mp_prec = mp_prec (pi_cached st), mp_val = mp_val x\<rparr>" for x
    by (rule mpf_eqI) (simp_all add: prec_simps exact_val exact_fields)
  have r2: "mpf_class_copy exact_engine \<lparr>mp_prec = q, mp_val = v\<rparr> = \<lparr>mp_prec = q, mp_val = v\<rparr>" for q v
    by (rule mpf_eqI) (simp_all add: prec_simps exact_val exact_fields)
  have H: "map_option (\<lambda>s. mp_val (gl_tmp_pi s)) L = gauss_legendre fuel (unat dp)"
    unfolding L_def gauss_legendre_def
    using pi_loop0_exact [OF c, of 0 "pi_init0 exact_engine dp" ?eps fuel] pi_init0_exact [of dp] ev
    by simp
  have m: "\<not> (pi_calculated (st\<lparr>pi_calculated := False\<rparr>)
        \<and> calculated_pi_precision (st\<lparr>pi_calculated := False\<rparr>) = default_prec (st\<lparr>pi_calculated := False\<rparr>))"
    by simp
  have "const_pi exact_engine fuel (st\<lparr>pi_calculated := False\<rparr>) =
     map_option
       (\<lambda>v. (\<lparr>mp_prec = mp_prec (pi_cached st), mp_val = v\<rparr>,
             st\<lparr>pi_cached := \<lparr>mp_prec = mp_prec (pi_cached st), mp_val = v\<rparr>,
                calculated_pi_precision := default_prec st, pi_calculated := True\<rparr>))
       (map_option (\<lambda>s. mp_val (gl_tmp_pi s)) L)"
    using const_pi_miss [OF m, of exact_engine fuel]
    by (cases L) (simp_all add: L_def dp_def r [unfolded dp_def] r2)
  then show ?thesis
    by (simp only: H dp_def)
qed



text \<open>The first estimate is at least 1, so no run converges in its first pass.\<close>

lemma gl_first_estimate: "1 \<le> gl_estimate (Suc 0)"
proof -
  define r :: real where "r = 1 / sqrt 2"
  define t :: real where "t = 1 / 4 - (1 - (1 + r) / 2)\<^sup>2"
  have r0: "0 < r" by (simp add: r_def)
  have r1: "r < 1" by (simp add: r_def)
  have "sqrt 2 \<le> 4" by (rule real_le_lsqrt) simp_all
  then have r4: "1 / 4 \<le> r" by (simp add: r_def field_simps)
  have b: "1 / 2 \<le> sqrt r"
    by (rule real_le_rsqrt) (use r4 in \<open>simp add: power2_eq_square\<close>)
  have "(1 - (1 + r) / 2)\<^sup>2 < (1 / 2)\<^sup>2"
    by (rule power_strict_mono) (use r0 r1 in simp_all)
  then have t0: "0 < t" by (simp add: t_def power2_eq_square)
  have t4: "4 * t \<le> 1" by (simp add: t_def)
  have "1 / 2 \<le> (1 + r) / 2" using r0 by simp
  from add_mono [OF this b] have "1 \<le> (1 + r) / 2 + sqrt r" by simp
  then have "1 \<le> ((1 + r) / 2 + sqrt r)\<^sup>2" by (rule one_le_power)
  with t4 have "4 * t \<le> ((1 + r) / 2 + sqrt r)\<^sup>2" by simp
  with t0 have "1 \<le> ((1 + r) / 2 + sqrt r)\<^sup>2 / (4 * t)" by simp
  moreover have "gl_estimate (Suc 0) = ((1 + r) / 2 + sqrt r)\<^sup>2 / (4 * t)"
    by (simp add: gl_estimate_def r_def t_def)
  ultimately show ?thesis by simp
qed

lemma gauss_legendre_first_pass: "gauss_legendre (Suc 0) p = None"
proof -
  have e: "(1::real) / 2 ^ p \<le> 1" by simp
  have z: "gl_estimate 0 = 0" by (simp add: gl_estimate_def)
  have "\<not> \<bar>gl_estimate (Suc 0) - gl_estimate 0\<bar> < 1 / 2 ^ p"
    unfolding z using gl_first_estimate e by linarith
  then show ?thesis by (simp add: gauss_legendre_def del: One_nat_def)
qed


subsection \<open>The mean iteration\<close>

definition agm_holds :: "mp_bitcnt_t \<Rightarrow> real \<Rightarrow> nat \<Rightarrow> real agm_vars \<Rightarrow> bool" where
  "agm_holds p b0 n s \<longleftrightarrow>
     agm_all_prec p s \<and> (mp_val (agm_a s), mp_val (agm_b s)) = agm_seq b0 n"

lemma agm_step_exact:
  assumes c: "mp_prec two = p" "mp_val two = 2" and h: "agm_holds p b0 n s"
  shows "agm_holds p b0 (Suc n) (agm_step exact_engine two s)"
proof -
  have g: "e_grant exact_engine p = p" by (simp add: exact_fields)
  have pr: "agm_all_prec p (agm_step exact_engine two s)"
    using h by (intro agm_step_prec [OF g c(1)]) (simp add: agm_holds_def)
  obtain a b where sq: "agm_seq b0 n = (a, b)"
    by (cases "agm_seq b0 n") auto
  have v: "mp_val (agm_a s) = a" "mp_val (agm_b s) = b"
    using h sq by (simp_all add: agm_holds_def)
  have 1: "mp_val (agm_a (agm_step exact_engine two s)) = (a + b) / 2"
    by (simp add: agm_step_def Let_def exact_val v c)
  have 2: "mp_val (agm_b (agm_step exact_engine two s)) = sqrt (a * b)"
    by (simp add: agm_step_def Let_def exact_val v c)
  show ?thesis
    using pr 1 2 by (simp add: agm_holds_def sq)
qed

lemma agm_converged_exact:
  assumes h: "agm_holds p b0 n s"
  shows "agm_converged exact_engine epsilon s
      \<longleftrightarrow> (case agm_seq b0 n of (a, b) \<Rightarrow> \<bar>a - b\<bar> < mp_val epsilon)"
proof -
  obtain a b where sq: "agm_seq b0 n = (a, b)"
    by (cases "agm_seq b0 n") auto
  have v: "mp_val (agm_a s) = a" "mp_val (agm_b s) = b"
    using h sq by (simp_all add: agm_holds_def)
  show ?thesis
    by (simp add: agm_converged_def exact_lt exact_val v sq)
qed

lemma agm_loop_exact:
  assumes c: "mp_prec two = p" "mp_val two = 2"
  shows "agm_holds p b0 n s
     \<Longrightarrow> map_option (\<lambda>r. (mp_val (agm_a r), mp_val (agm_b r))) (agm_loop exact_engine two epsilon fuel s)
         = agm_search (mp_val epsilon) b0 fuel n"
proof (induction fuel arbitrary: n s)
  case 0
  then show ?case by simp
next
  case (Suc fuel)
  have h: "agm_holds p b0 (Suc n) (agm_step exact_engine two s)"
    by (rule agm_step_exact [OF c Suc.prems])
  obtain a b where sq: "agm_seq b0 n = (a, b)"
    by (cases "agm_seq b0 n") auto
  have t: "agm_converged exact_engine epsilon s \<longleftrightarrow> \<bar>a - b\<bar> < mp_val epsilon"
    using agm_converged_exact [OF Suc.prems, of epsilon] by (simp add: sq)
  have v: "(mp_val (agm_a (agm_step exact_engine two s)), mp_val (agm_b (agm_step exact_engine two s)))
            = agm_seq b0 (Suc n)"
    using h by (simp add: agm_holds_def)
  show ?case
  proof (cases "\<bar>a - b\<bar> < mp_val epsilon")
    case True
    then show ?thesis
      using t v sq by (simp del: agm_seq.simps)
  next
    case False
    then show ?thesis
      using t sq Suc.IH [OF h] by (simp del: agm_seq.simps)
  qed
qed

lemma log2_loop_is_agm_loop:
  assumes g: "e_grant E p = p" and c: "mp_prec two = p"
  shows "agm_all_prec p s
     \<Longrightarrow> log2_loop E p two epsilon n s = map_option Inr (agm_loop E two epsilon n s)"
proof (induction n arbitrary: s)
  case 0
  then show ?case by simp
next
  case (Suc n)
  have s: "agm_all_prec p (agm_step E two s)"
    using Suc.prems by (rule agm_step_prec [OF g c])
  then have b: "get_prec (agm_b_next (agm_step E two s)) = p"
    by (simp add: agm_all_prec_def)
  show ?case
    using b Suc.IH [OF s] by simp
qed

lemma const_log2_prec_eq:
  assumes g: "e_grant E p = p"
  shows "const_log2_prec E n p =
     (case agm_loop E (mpf_class_d_prec E 2 p) (div_2exp E (mpf_class_copy E (mpf_class_d_prec E 1 p)) p)
             n (log2_init E p) of
        None \<Rightarrow> None
      | Some s \<Rightarrow>
          (case const_pi_prec E n p of
             None \<Rightarrow> None
           | Some (Inl e) \<Rightarrow> Some (Inl e)
           | Some (Inr pi_v) \<Rightarrow>
               Some (Inr (assign E (mpf_class_copy E (mpf_class_d_prec E 0 p))
                        (operator_div E pi_v (operator_mul E (mpf_class_ui_prec E (unat p) p) (agm_a s)))))))"
proof -
  let ?zero = "mpf_class_d_prec E 0 p"
  let ?one = "mpf_class_d_prec E 1 p"
  let ?two = "mpf_class_d_prec E 2 p"
  let ?eps = "div_2exp E (mpf_class_copy E ?one) p"
  let ?l = "mpf_class_copy E ?zero"
  let ?f = "mpf_class_ui_prec E (unat p) p"
  have c: "mp_prec ?two = p" using g by (simp add: prec_simps)
  have a0: "log2_asserts p ?l ?eps ?l (mpf_class_copy E ?one) (log2_init E p) ?one ?two"
    using g log2_init_prec [OF g] by (simp add: log2_asserts_alt prec_simps)
  have L: "log2_loop E p ?two ?eps n (log2_init E p) = map_option Inr (agm_loop E ?two ?eps n (log2_init E p))"
    by (rule log2_loop_is_agm_loop [OF g c log2_init_prec [OF g]])
  show ?thesis
  proof (cases "agm_loop E ?two ?eps n (log2_init E p)")
    case None
    with a0 L show ?thesis by (simp add: const_log2_prec_def Let_def)
  next
    case (Some s)
    have s: "agm_all_prec p s"
      by (rule agm_loop_prec [OF g c log2_init_prec [OF g] Some])
    from const_pi_prec_cases [OF g, of n] show ?thesis
    proof
      assume "const_pi_prec E n p = None"
      with a0 L Some show ?thesis by (simp add: const_log2_prec_def Let_def)
    next
      assume "\<exists>r. const_pi_prec E n p = Some (Inr r) \<and> mp_prec r = p"
      then obtain r where r: "const_pi_prec E n p = Some (Inr r)" and rp: "mp_prec r = p" by blast
      let ?res = "assign E ?l (operator_div E r (operator_mul E ?f (agm_a s)))"
      have a1: "log2_asserts p ?res ?eps ?l (mpf_class_copy E ?one) s ?one ?two"
        using g s by (simp add: log2_asserts_alt prec_simps)
      have f: "get_prec ?f = p" "get_prec r = p"
        using g rp by (simp_all add: prec_simps)
      show ?thesis
        using a0 a1 f L Some r by (simp add: const_log2_prec_def Let_def)
    qed
  qed
qed

lemma log2_init_exact: "agm_holds p (1 / 2 ^ unat (p div 2 - 2)) 0 (log2_init exact_engine p)"
proof -
  have "agm_all_prec p (log2_init exact_engine p)"
    by (rule log2_init_prec) (simp add: exact_fields)
  then show ?thesis
    by (simp add: agm_holds_def log2_init_def Let_def exact_val)
qed

lemma log2_init0_exact:
  assumes "mp_prec epsilon = dp"
  shows "agm_holds dp (mp_val epsilon) 0 (log2_init0 exact_engine dp epsilon)"
  using assms
  by (simp add: agm_holds_def agm_all_prec_def log2_init0_def exact_val prec_simps exact_fields)

lemma const_log2_prec_exact:
  "const_log2_prec exact_engine fuel p =
     map_option (\<lambda>v. Inr \<lparr>mp_prec = p, mp_val = v\<rparr>)
       (log2_by_agm fuel (1 / 2 ^ unat p) (unat (p div 2 - 2)) (unat p))"
proof -
  let ?zero = "mpf_class_d_prec exact_engine 0 p"
  let ?two = "mpf_class_d_prec exact_engine 2 p"
  let ?eps = "div_2exp exact_engine (mpf_class_copy exact_engine (mpf_class_d_prec exact_engine 1 p)) p"
  define L where "L = agm_loop exact_engine ?two ?eps fuel (log2_init exact_engine p)"
  define b0 :: real where "b0 = 1 / 2 ^ unat (p div 2 - 2)"
  have g: "e_grant exact_engine p = p" by (simp add: exact_fields)
  have c: "mp_prec ?two = p" "mp_val ?two = 2"
    by (simp_all add: prec_simps exact_val exact_fields)
  have ev: "mp_val ?eps = 1 / 2 ^ unat p"
    by (simp add: exact_val)
  have r: "assign exact_engine (mpf_class_copy exact_engine ?zero) x
         = \<lparr>mp_prec = p, mp_val = mp_val x\<rparr>" for x
    by (rule mpf_eqI) (simp_all add: prec_simps exact_val exact_fields)
  have H: "map_option (\<lambda>r. (mp_val (agm_a r), mp_val (agm_b r))) L = agm_search (1 / 2 ^ unat p) b0 fuel 0"
    unfolding L_def b0_def
    using agm_loop_exact [OF c log2_init_exact [of p], of ?eps fuel] ev by simp
  have E: "const_log2_prec exact_engine fuel p =
     (case L of
        None \<Rightarrow> None
      | Some s \<Rightarrow>
          (case gauss_legendre fuel (unat p) of
             None \<Rightarrow> None
           | Some pi_v \<Rightarrow> Some (Inr \<lparr>mp_prec = p, mp_val = pi_v / (real (unat p) * mp_val (agm_a s))\<rparr>)))"
    unfolding L_def const_log2_prec_eq [OF g] const_pi_prec_exact
    by (cases "gauss_legendre fuel (unat p)") (simp_all add: r exact_val split: option.splits)
  show ?thesis
  proof (cases L)
    case None
    with H E show ?thesis by (simp add: log2_by_agm_def b0_def)
  next
    case (Some s)
    with H have "agm_search (1 / 2 ^ unat p) b0 fuel 0 = Some (mp_val (agm_a s), mp_val (agm_b s))"
      by simp
    with E Some show ?thesis
      by (simp add: log2_by_agm_def b0_def split: option.splits)
  qed
qed

lemma const_pi_exact_miss:
  assumes "\<not> pi_calculated st"
  shows "const_pi exact_engine fuel st =
     map_option
       (\<lambda>v. (\<lparr>mp_prec = mp_prec (pi_cached st), mp_val = v\<rparr>,
             st\<lparr>pi_cached := \<lparr>mp_prec = mp_prec (pi_cached st), mp_val = v\<rparr>,
                calculated_pi_precision := default_prec st, pi_calculated := True\<rparr>))
       (gauss_legendre fuel (unat (default_prec st)))"
proof -
  have "st\<lparr>pi_calculated := False\<rparr> = st" using assms by simp
  with const_pi_exact [of fuel st] show ?thesis by simp
qed

lemma const_log2_exact:
  fixes st :: "real globals"
  defines "dp \<equiv> default_prec st"
  defines "q \<equiv> (case log2_cached st of None \<Rightarrow> default_prec st | Some c \<Rightarrow> mp_prec c)"
  shows "map_option fst (const_log2 exact_engine fuel (st\<lparr>pi_calculated := False, log2_calculated := False\<rparr>)) =
     map_option (\<lambda>v. \<lparr>mp_prec = q, mp_val = v\<rparr>)
       (log2_by_agm fuel (1 / 2 ^ unat (dp div 2 - 2)) (unat (dp div 2 - 2)) (unat dp))"
proof -
  let ?two = "mpf_class_d exact_engine dp 2"
  let ?eps = "div_2exp exact_engine (mpf_class_copy exact_engine (mpf_class_d exact_engine dp 1)) (dp div 2 - 2)"
  define L where "L = agm_loop exact_engine ?two ?eps fuel (log2_init0 exact_engine dp ?eps)"
  define b0 :: real where "b0 = 1 / 2 ^ unat (dp div 2 - 2)"
  define slot where "slot = (case log2_cached st of None \<Rightarrow> mpf_class_default exact_engine dp | Some c \<Rightarrow> c)"
  define st1 where "st1 = st\<lparr>pi_calculated := False, log2_calculated := False,
      log2_cached := Some (assign exact_engine slot (mpf_class_default exact_engine dp)),
      calculated_log2_precision := dp\<rparr>"
  have c: "mp_prec ?two = dp" "mp_val ?two = 2"
    by (simp_all add: prec_simps exact_val exact_fields)
  have ev: "mp_val ?eps = b0" "mp_prec ?eps = dp"
    by (simp_all add: exact_val b0_def prec_simps exact_fields)
  have sq: "mp_prec slot = q"
    by (simp add: slot_def q_def dp_def prec_simps exact_fields split: option.splits)
  have r: "mpf_class_copy exact_engine (assign exact_engine (assign exact_engine slot y) x)
         = \<lparr>mp_prec = q, mp_val = mp_val x\<rparr>" for x y
    by (rule mpf_eqI) (simp_all add: prec_simps exact_val exact_fields sq)
  have H: "map_option (\<lambda>r. (mp_val (agm_a r), mp_val (agm_b r))) L = agm_search b0 b0 fuel 0"
    unfolding L_def
    using agm_loop_exact [OF c log2_init0_exact [OF ev(2)], of ?eps fuel] ev by simp
  have P: "const_pi exact_engine fuel st1 =
     map_option
       (\<lambda>v. (\<lparr>mp_prec = mp_prec (pi_cached st1), mp_val = v\<rparr>,
             st1\<lparr>pi_cached := \<lparr>mp_prec = mp_prec (pi_cached st1), mp_val = v\<rparr>,
                calculated_pi_precision := default_prec st1, pi_calculated := True\<rparr>))
       (gauss_legendre fuel (unat dp))"
    using const_pi_exact_miss [of st1 fuel] by (simp add: st1_def dp_def)
  have E: "map_option fst (const_log2 exact_engine fuel (st\<lparr>pi_calculated := False, log2_calculated := False\<rparr>)) =
     (case L of
        None \<Rightarrow> None
      | Some s \<Rightarrow>
          (case gauss_legendre fuel (unat dp) of
             None \<Rightarrow> None
           | Some pi_v \<Rightarrow> Some \<lparr>mp_prec = q, mp_val = pi_v / (real (unat dp) * mp_val (agm_a s))\<rparr>))"
  proof -
    have "const_log2 exact_engine fuel (st\<lparr>pi_calculated := False, log2_calculated := False\<rparr>) =
      (case L of None \<Rightarrow> None
       | Some s \<Rightarrow>
          (case const_pi exact_engine fuel st1 of
             None \<Rightarrow> None
           | Some (pi_v, st2) \<Rightarrow>
               Some (mpf_class_copy exact_engine
                       (assign exact_engine (assign exact_engine slot (mpf_class_default exact_engine dp))
                          (operator_div exact_engine pi_v
                             (operator_mul exact_engine (mpf_class_ui exact_engine dp (unat dp)) (agm_a s)))),
                     st2\<lparr>log2_cached := Some (assign exact_engine (assign exact_engine slot (mpf_class_default exact_engine dp))
                          (operator_div exact_engine pi_v
                             (operator_mul exact_engine (mpf_class_ui exact_engine dp (unat dp)) (agm_a s)))),
                         log2_calculated := True\<rparr>)))"
      by (simp add: const_log2_def Let_def mpf_get_default_prec_def L_def st1_def slot_def dp_def
          cong: option.case_cong)
    then show ?thesis
      unfolding P r
      by (cases "gauss_legendre fuel (unat dp)") (simp_all add: exact_val split: option.splits)
  qed
  show ?thesis
  proof (cases L)
    case None
    with H E show ?thesis by (simp add: log2_by_agm_def b0_def)
  next
    case (Some s)
    with H have "agm_search b0 b0 fuel 0 = Some (mp_val (agm_a s), mp_val (agm_b s))"
      by simp
    with E Some show ?thesis
      by (simp add: log2_by_agm_def b0_def split: option.splits)
  qed
qed

lemma log2_by_agm_first_pass: "log2_by_agm (Suc 0) eps shift p = None"
  by (simp add: log2_by_agm_def gauss_legendre_first_pass split: option.splits)

text \<open>
  C6. In exact arithmetic \<open>const_log2(p)\<close> starts the mean iteration at \<open>a = 1\<close>,
  \<open>b = 2^(-(p/2 - 2))\<close> (the shift count in unsigned arithmetic), repeats
  \<open>a' = (a+b)/2\<close>, \<open>b' = sqrt (a b)\<close> until a pair with \<open>|a - b| < 2^(-p)\<close> has been
  replaced by its means, and returns \<open>pi / (p a)\<close> at precision \<open>p\<close>, with \<open>pi\<close> from
  \<open>const_pi(p)\<close>. The zero-argument form, when it computes, does the same at the
  default precision \<open>p\<close> except for the threshold, which is \<open>2^(-(p/2 - 2))\<close>, the
  number \<open>b\<close> starts from; its result has the precision of the cached object.
\<close>

theorem const_log2_is_agm:
  "const_log2_prec exact_engine fuel p =
     map_option (\<lambda>v. Inr \<lparr>mp_prec = p, mp_val = v\<rparr>)
       (log2_by_agm fuel (1 / 2 ^ unat p) (unat (p div 2 - 2)) (unat p))
   \<and> map_option fst (const_log2 exact_engine fuel (st\<lparr>pi_calculated := False, log2_calculated := False\<rparr>)) =
     map_option
       (\<lambda>v. \<lparr>mp_prec = (case log2_cached st of None \<Rightarrow> default_prec st | Some c \<Rightarrow> mp_prec c),
             mp_val = v\<rparr>)
       (log2_by_agm fuel (1 / 2 ^ unat (default_prec st div 2 - 2)) (unat (default_prec st div 2 - 2))
          (unat (default_prec st)))
   \<and> agm_all_prec p (log2_init exact_engine p)
   \<and> (mp_val (agm_a (log2_init exact_engine p)), mp_val (agm_b (log2_init exact_engine p)))
     = (1, 1 / 2 ^ unat (p div 2 - 2))"
  using const_log2_prec_exact [of fuel p] const_log2_exact [of fuel st] log2_init_exact [of p]
  by (simp add: agm_holds_def)

text \<open>
  The loop of \<open>const_log2()\<close> on the limb engine at default precision 64: it stops in
  its eighth pass.
\<close>

lemma log2_loop0_run:
  "map_option agm_a
     (agm_loop fx_limb (mpf_class_d fx_limb 64 2)
        (div_2exp fx_limb (mpf_class_copy fx_limb (mpf_class_d fx_limb 64 1)) 30) 8
        (log2_init0 fx_limb 64 (div_2exp fx_limb (mpf_class_copy fx_limb (mpf_class_d fx_limb 64 1)) 30)))
   = Some \<lparr>mp_prec = 64, mp_val = 24098159949985591519348273025350518460\<rparr>"
  by code_simp

text \<open>
  The theorem at precision 64, and the two thresholds on the limb engine at default
  precision 64: with \<open>2^(-30)\<close>, the threshold of \<open>const_log2()\<close>, the loop has stopped
  after eight passes; with \<open>2^(-64)\<close> on the same start it has not.
\<close>

theorem const_log2_is_agm_witness:
  "(mp_val (agm_a (log2_init exact_engine 64)), mp_val (agm_b (log2_init exact_engine 64)))
     = (1, 1 / 2 ^ 30)
   \<and> agm_loop fx_limb (mpf_class_d fx_limb 64 2)
        (div_2exp fx_limb (mpf_class_copy fx_limb (mpf_class_d fx_limb 64 1)) 30) 8
        (log2_init0 fx_limb 64 (div_2exp fx_limb (mpf_class_copy fx_limb (mpf_class_d fx_limb 64 1)) 30))
     \<noteq> None
   \<and> agm_loop fx_limb (mpf_class_d fx_limb 64 2)
        (div_2exp fx_limb (mpf_class_copy fx_limb (mpf_class_d fx_limb 64 1)) 64) 8
        (log2_init0 fx_limb 64 (div_2exp fx_limb (mpf_class_copy fx_limb (mpf_class_d fx_limb 64 1)) 30))
     = None"
proof -
  have u: "unat (64 div 2 - 2 :: 64 word) = 30" by simp
  have 1: "(mp_val (agm_a (log2_init exact_engine 64)), mp_val (agm_b (log2_init exact_engine 64)))
     = (1, 1 / 2 ^ 30)"
    using const_log2_is_agm [of 0 64 undefined] by (simp add: u)
  have 2: "agm_loop fx_limb (mpf_class_d fx_limb 64 2)
        (div_2exp fx_limb (mpf_class_copy fx_limb (mpf_class_d fx_limb 64 1)) 30) 8
        (log2_init0 fx_limb 64 (div_2exp fx_limb (mpf_class_copy fx_limb (mpf_class_d fx_limb 64 1)) 30))
     \<noteq> None"
    using log2_loop0_run by auto
  have 3: "agm_loop fx_limb (mpf_class_d fx_limb 64 2)
        (div_2exp fx_limb (mpf_class_copy fx_limb (mpf_class_d fx_limb 64 1)) 64) 8
        (log2_init0 fx_limb 64 (div_2exp fx_limb (mpf_class_copy fx_limb (mpf_class_d fx_limb 64 1)) 30))
     = None"
    by code_simp
  from 1 2 3 show ?thesis by (intro conjI)
qed

section \<open>The assertions of \<open>const_pi(p)\<close> and \<open>const_log2(p)\<close>\<close>

text \<open>
  C10. Both functions assert that their variables report the requested precision
  \<open>p\<close>. A variable made by \<open>mpf_init2(x, p)\<close> reports what the engine grants for \<open>p\<close>,
  and a copy of it what the engine grants for that. So for every request that the
  engine does not grant as it is, the first assertion of either function,
  \<open>assert(calculated_pi.get_prec() == req_precision)\<close> respectively
  \<open>assert(log2.get_prec() == req_precision)\<close>, fails before any pass of the loop is
  made: no value is returned, whatever the number of passes allowed. Under GMP's limb
  granularity a request of 100 bits is such a request.
\<close>

theorem constants_assert_requested_precision:
  assumes "e_grant E (e_grant E p) \<noteq> p"
  shows "const_pi_prec E fuel p = Some (Inl Assertion_failed)
       \<and> const_log2_prec E fuel p = Some (Inl Assertion_failed)"
  using const_pi_prec_assert_fails [OF assms] const_log2_prec_assert_fails [OF assms] by simp

theorem constants_assert_requested_precision_witness:
  "e_grant fx_limb 100 = 128
   \<and> e_grant fx_limb (e_grant fx_limb 100) \<noteq> 100
   \<and> const_pi_prec fx_limb 8 100 = Some (Inl Assertion_failed)
   \<and> const_log2_prec fx_limb 8 100 = Some (Inl Assertion_failed)"
proof -
  have g: "e_grant fx_limb 100 = 128"
    by (simp add: fx_limb_def fx_engine_def limb_grant_def)
  have n: "e_grant fx_limb (e_grant fx_limb 100) \<noteq> 100"
    by (simp add: fx_limb_def fx_engine_def limb_grant_def)
  show ?thesis
    using g n constants_assert_requested_precision [OF n, of 8] by simp
qed

section \<open>\<open>exp\<close>\<close>

lemma exp_taylor_prec:
  "e_grant E (mp_prec exp_v) = mp_prec exp_v
     \<Longrightarrow> mp_prec (exp_taylor E p one r i exp_v) = mp_prec exp_v"
  by (induction i arbitrary: exp_v) (simp_all add: prec_simps)

lemma exp_square_prec:
  "e_grant E (mp_prec exp_v) = mp_prec exp_v \<Longrightarrow> mp_prec (exp_square E n exp_v) = mp_prec exp_v"
  by (induction n arbitrary: exp_v) (simp_all add: prec_simps)

lemma exp_body_prec:
  fixes E :: "'v engine"
  assumes g: "e_grant E (mp_prec x) = mp_prec x"
  shows "exp_body E dp x log2_r = Inl Signed_overflow
       \<or> (\<exists>res. exp_body E dp x log2_r = Inr res \<and> mp_prec res = mp_prec x)"
proof -
  define p where "p = mp_prec x"
  have g: "e_grant E p = p" using g by (simp add: p_def)
  let ?one = "mpf_class_d_prec E 1 p"
  let ?zero = "mpf_class_d_prec E 0 p"
  define x_v where "x_v = (if operator_lt E x ?zero
      then assign E (mpf_class_copy E x) (operator_neg E (mpf_class_copy E x)) else mpf_class_copy E x)"
  define red where "red = exp_reduce E dp p (mpf_class_copy E ?zero) x_v (mpf_class_move log2_r)"
  define e1 where "e1 = exp_taylor E p ?one (red_r red) (nat (sint (ucast (red_l red) :: c_int)))
                          (mpf_class_copy E ?one)"
  define e2 where "e2 = exp_square E (nat (sint (red_k red))) e1"
  define e3 where "e3 = (if 0 < sint (red_n red) then mul_2exp E e2 (red_n red) else e2)"
  define e4 where "e4 = (if sint (red_n red) < 0 then div_2exp E e3 (- red_n red) else e3)"
  define e5 where "e5 = (if operator_lt E x ?zero then assign E e4 (operator_div E ?one e4) else e4)"
  have 0: "mp_prec (mpf_class_copy E ?one) = p" using g by (simp add: prec_simps)
  have 1: "mp_prec e1 = p"
    unfolding e1_def using exp_taylor_prec [of E "mpf_class_copy E ?one"] 0 g by simp
  have 2: "mp_prec e2 = p"
    unfolding e2_def using exp_square_prec [of E e1] 1 g by simp
  have 3: "mp_prec e3 = p" using 2 by (simp add: e3_def prec_simps)
  have 4: "mp_prec e4 = p" using 3 by (simp add: e4_def prec_simps)
  have 5: "mp_prec e5 = p" using 4 g by (simp add: e5_def prec_simps)
  have "exp_body E dp x log2_r = (if 2 ^ 31 \<le> sint (red_k red) then Inl Signed_overflow else Inr e5)"
    by (simp add: exp_body_def Let_def get_prec_eq p_def [symmetric] x_v_def red_def e1_def
        e2_def e3_def e4_def e5_def)
  with 5 show ?thesis by (simp add: p_def)
qed

lemma exp_mpf_shape:
  fixes E :: "'v engine"
  assumes g: "prec_granted E x"
  shows "(exp_mpf E fuel dp x = None
          \<longleftrightarrow> const_pi_prec E fuel (get_prec x) = None \<or> const_log2_prec E fuel (get_prec x) = None)
       \<and> (\<forall>e. exp_mpf E fuel dp x = Some (Inl e) \<longrightarrow> e = Signed_overflow)
       \<and> (\<forall>res. exp_mpf E fuel dp x = Some (Inr res) \<longrightarrow> get_prec res = get_prec x)"
proof -
  have g: "e_grant E (mp_prec x) = mp_prec x" using g by (simp add: prec_granted_def)
  from const_pi_prec_cases [OF g, of fuel] show ?thesis
  proof
    assume "const_pi_prec E fuel (mp_prec x) = None"
    then show ?thesis by (simp add: exp_mpf_def get_prec_eq)
  next
    assume "\<exists>r. const_pi_prec E fuel (mp_prec x) = Some (Inr r) \<and> mp_prec r = mp_prec x"
    then obtain pi_r where pr: "const_pi_prec E fuel (mp_prec x) = Some (Inr pi_r)" by blast
    from const_log2_prec_cases [OF g, of fuel] show ?thesis
    proof
      assume "const_log2_prec E fuel (mp_prec x) = None"
      with pr show ?thesis by (simp add: exp_mpf_def get_prec_eq)
    next
      assume "\<exists>r. const_log2_prec E fuel (mp_prec x) = Some (Inr r) \<and> mp_prec r = mp_prec x"
      then obtain log2_r where lr: "const_log2_prec E fuel (mp_prec x) = Some (Inr log2_r)" by blast
      have e: "exp_mpf E fuel dp x = Some (exp_body E dp x log2_r)"
        using pr lr by (simp add: exp_mpf_def get_prec_eq)
      from exp_body_prec [OF g, of dp log2_r] show ?thesis
        using e pr lr by (auto simp: get_prec_eq)
    qed
  qed
qed

lemma taylor_back_sum:
  "taylor_back r i e = (\<Sum>j<i. r ^ j / fact j) + r ^ i * e / fact i"
proof (induction i arbitrary: e)
  case 0
  then show ?case by simp
next
  case (Suc i)
  define f :: real where "f = fact i"
  define s :: real where "s = real (Suc i)"
  have fs: "fact (Suc i) = s * f" by (simp add: f_def s_def)
  have "r ^ i * (1 + r * e / s) / f = r ^ i / f + r ^ i * (r * e / s) / f"
    by (simp add: distrib_left add_divide_distrib)
  also have "r ^ i * (r * e / s) / f = r ^ Suc i * e / (s * f)"
    by simp
  finally have a: "r ^ i * (1 + r * e / s) / f = r ^ i / f + r ^ Suc i * e / fact (Suc i)"
    by (simp only: fs)
  have "taylor_back r (Suc i) e = (\<Sum>j<i. r ^ j / fact j) + r ^ i * (1 + r * e / s) / f"
    by (simp add: Suc.IH f_def s_def)
  also have "\<dots> = (\<Sum>j<Suc i. r ^ j / fact j) + r ^ Suc i * e / fact (Suc i)"
    unfolding a by (simp add: f_def)
  finally show ?case .
qed

lemma taylor_back_series: "taylor_back r l 1 = (\<Sum>j\<le>l. r ^ j / fact j)"
  by (simp add: taylor_back_sum lessThan_Suc_atMost [symmetric])

lemma exp_taylor_exact:
  assumes o: "mp_val one = 1"
  shows "mp_val (exp_taylor exact_engine p one r i exp_v) = taylor_back (mp_val r) i (mp_val exp_v)"
  by (induction i arbitrary: exp_v) (simp_all add: exact_val o)

lemma exp_taylor_series:
  assumes "mp_val one = 1" "mp_val exp_v = 1"
  shows "mp_val (exp_taylor exact_engine p one r i exp_v) = taylor_back (mp_val r) i 1"
  using exp_taylor_exact [OF assms(1), of p r i exp_v] assms(2) by simp

lemma exp_square_exact:
  "mp_val (exp_square exact_engine n exp_v) = mp_val exp_v ^ (2 ^ n)"
proof (induction n arbitrary: exp_v)
  case 0
  then show ?case by simp
next
  case (Suc n)
  show ?case
    by (simp add: Suc.IH exact_val power_mult [symmetric] power2_eq_square [symmetric])
qed

lemma exact_get_si_of_int: "exact_get_si (of_int z) = word_of_int z"
  by (simp add: exact_get_si_def)

lemma exp_reduce_exact:
  fixes x_v log2_v r :: "real mpf_class" and dp p :: mp_bitcnt_t
  defines "y \<equiv> mp_val x_v"
  defines "e \<equiv> exact_get_d_2exp (mp_val x_v)"
  defines "n \<equiv> (if 0 < sint e then word_of_int \<lfloor>(y / 2 ^ unat e) / (mp_val log2_v / 2 ^ unat e)\<rfloor> else 0 :: mp_exp_t)"
  defines "red \<equiv> exp_reduce exact_engine dp p r x_v log2_v"
  shows "red_k red = (if 0 < sint e then e else 0)"
    and "red_n red = n"
    and "red_l red = (if 0 < sint e then p div e else p)"
    and "mp_val (red_r red)
          = (if 0 < sint e then y / 2 ^ unat e - of_int (sint n) * (mp_val log2_v / 2 ^ unat e) else y)"
  by (simp_all add: red_def n_def e_def y_def exp_reduce_def Let_def exact_val get_si_def
      mpf_get_si_def mpf_get_d_2exp_def exact_fields exact_get_si_of_int mult.commute)

lemma log2_by_agm_Some:
  assumes "log2_by_agm fuel eps shift p = Some v"
  shows "\<exists>g. gauss_legendre fuel p = Some g"
  using assms by (simp add: log2_by_agm_def split: option.splits)

lemma exp_body_exact:
  "exp_body exact_engine dp x log2_r =
     map_sum id (\<lambda>v. \<lparr>mp_prec = get_prec x, mp_val = v\<rparr>)
       (exp_value (get_prec x) (mp_val log2_r) (mp_val x))"
proof -
  define p where "p = mp_prec x"
  define E where "E = exact_engine"
  define ln2 where "ln2 = mp_val log2_r"
  let ?one = "mpf_class_d_prec E 1 p"
  let ?zero = "mpf_class_d_prec E 0 p"
  have g: "e_grant E p = p" by (simp add: E_def exact_fields)
  define x_v where "x_v = (if operator_lt E x ?zero
      then assign E (mpf_class_copy E x) (operator_neg E (mpf_class_copy E x)) else mpf_class_copy E x)"
  define red where "red = exp_reduce E dp p (mpf_class_copy E ?zero) x_v (mpf_class_move log2_r)"
  define e1 where "e1 = exp_taylor E p ?one (red_r red) (nat (sint (ucast (red_l red) :: c_int)))
                          (mpf_class_copy E ?one)"
  define e2 where "e2 = exp_square E (nat (sint (red_k red))) e1"
  define e3 where "e3 = (if 0 < sint (red_n red) then mul_2exp E e2 (red_n red) else e2)"
  define e4 where "e4 = (if sint (red_n red) < 0 then div_2exp E e3 (- red_n red) else e3)"
  define e5 where "e5 = (if operator_lt E x ?zero then assign E e4 (operator_div E ?one e4) else e4)"
  have 0: "mp_prec (mpf_class_copy E ?one) = p" using g by (simp add: prec_simps)
  have 1: "mp_prec e1 = p"
    unfolding e1_def using exp_taylor_prec [of E "mpf_class_copy E ?one"] 0 g by simp
  have 2: "mp_prec e2 = p"
    unfolding e2_def using exp_square_prec [of E e1] 1 g by simp
  have 3: "mp_prec e3 = p" using 2 by (simp add: e3_def prec_simps)
  have 4: "mp_prec e4 = p" using 3 by (simp add: e4_def prec_simps)
  have 5: "mp_prec e5 = p" using 4 g by (simp add: e5_def prec_simps)
  have u: "exp_body E dp x log2_r =
      (if 2 ^ 31 \<le> sint (red_k red) then Inl Signed_overflow else Inr e5)"
    by (simp add: exp_body_def Let_def get_prec_eq p_def [symmetric] x_v_def red_def e1_def
        e2_def e3_def e4_def e5_def)
  define y where "y = \<bar>mp_val x\<bar>"
  define e where "e = exact_get_d_2exp y"
  define n :: mp_exp_t
    where "n = (if 0 < sint e then word_of_int \<lfloor>(y / 2 ^ unat e) / (ln2 / 2 ^ unat e)\<rfloor> else 0)"
  define k where "k = (if 0 < sint e then e else 0)"
  define rv where "rv = (if 0 < sint e then y / 2 ^ unat e - of_int (sint n) * (ln2 / 2 ^ unat e) else y)"
  define l where "l = (if 0 < sint e then p div e else p)"
  define v2 where "v2 = taylor_back rv (nat (sint (ucast l :: c_int))) 1 ^ (2 ^ nat (sint k))"
  define v4 where "v4 = (if 0 < sint n then v2 * 2 ^ unat n else if sint n < 0 then v2 / 2 ^ unat (- n) else v2)"
  have lt: "operator_lt E x ?zero \<longleftrightarrow> mp_val x < 0"
    by (simp add: E_def exact_lt exact_val)
  have xv: "mp_val x_v = y"
    by (simp add: x_v_def lt y_def) (simp add: E_def exact_val)
  have lv: "mp_val (mpf_class_move log2_r) = ln2"
    by (simp add: exact_val ln2_def)
  have rk: "red_k red = k" and rn: "red_n red = n" and rl: "red_l red = l" and rr: "mp_val (red_r red) = rv"
    using exp_reduce_exact [of dp p "mpf_class_copy E ?zero" x_v "mpf_class_move log2_r"]
    by (simp_all add: red_def [symmetric] E_def [symmetric] xv lv e_def n_def k_def rv_def l_def)
  have o: "mp_val ?one = 1" "mp_val (mpf_class_copy E ?one) = 1"
    by (simp_all add: E_def exact_val)
  have w1: "mp_val e1 = taylor_back rv (nat (sint (ucast l :: c_int))) 1"
    unfolding e1_def E_def using exp_taylor_series [OF o [unfolded E_def]]
    by (simp add: rr [unfolded E_def] rl [unfolded E_def] E_def [symmetric])
  have w2: "mp_val e2 = v2"
    unfolding e2_def E_def using exp_square_exact [of "nat (sint (red_k red))" e1] w1
    by (simp add: v2_def rk E_def)
  have w4: "mp_val e4 = v4"
    by (simp add: e4_def e3_def rn v4_def w2) (simp add: E_def exact_val w2 [unfolded E_def])
  have w5: "mp_val e5 = (if mp_val x < 0 then 1 / v4 else v4)"
    by (simp add: e5_def lt w4) (simp add: E_def exact_val w4 [unfolded E_def] o [unfolded E_def])
  have e5: "e5 = \<lparr>mp_prec = p, mp_val = (if mp_val x < 0 then 1 / v4 else v4)\<rparr>"
    using 5 w5 by (rule mpf_eqI)
  have x: "exp_value p ln2 (mp_val x) =
      (if 2 ^ 31 \<le> sint k then Inl Signed_overflow
       else Inr (if mp_val x < 0 then 1 / v4 else v4))"
    unfolding exp_value_def Let_def v4_def v2_def l_def rv_def k_def n_def e_def y_def
    by (rule refl)
  show ?thesis
    unfolding get_prec_eq p_def [symmetric] E_def [symmetric] ln2_def [symmetric] u x rk e5 by simp
qed

lemma exp_mpf_exact:
  "exp_mpf exact_engine fuel dp x =
     map_option (map_sum id (\<lambda>v. \<lparr>mp_prec = get_prec x, mp_val = v\<rparr>))
       (exp_exact fuel (get_prec x) (mp_val x))"
proof -
  define p where "p = mp_prec x"
  have P: "const_pi_prec exact_engine fuel p
             = map_option (\<lambda>v. Inr \<lparr>mp_prec = p, mp_val = v\<rparr>) (gauss_legendre fuel (unat p))"
    by (rule const_pi_prec_exact)
  have Lg: "const_log2_prec exact_engine fuel p
             = map_option (\<lambda>v. Inr \<lparr>mp_prec = p, mp_val = v\<rparr>)
                 (log2_by_agm fuel (1 / 2 ^ unat p) (unat (p div 2 - 2)) (unat p))"
    by (rule const_log2_prec_exact)
  show ?thesis
  proof (cases "log2_by_agm fuel (1 / 2 ^ unat p) (unat (p div 2 - 2)) (unat p)")
    case None
    then have "exp_mpf exact_engine fuel dp x = None"
      using P Lg by (cases "gauss_legendre fuel (unat p)") (simp_all add: exp_mpf_def get_prec_eq p_def)
    with None show ?thesis
      by (simp add: exp_exact_def get_prec_eq p_def)
  next
    case (Some ln2)
    from log2_by_agm_Some [OF Some] obtain gv where gv: "gauss_legendre fuel (unat p) = Some gv"
      by blast
    have "exp_mpf exact_engine fuel dp x = Some (exp_body exact_engine dp x \<lparr>mp_prec = p, mp_val = ln2\<rparr>)"
      using P Lg gv Some by (simp add: exp_mpf_def get_prec_eq p_def)
    then show ?thesis
      using Some by (simp add: exp_body_exact exp_exact_def get_prec_eq p_def)
  qed
qed

subsection \<open>Runs on the limb engine at precision 64\<close>

lemma fx_limb_grant_64: "e_grant fx_limb 64 = 64"
  by (simp add: fx_limb_def fx_engine_def limb_grant_def)

lemma pi_prec_run:
  "const_pi_prec fx_limb 10 64
     = Some (Inr \<lparr>mp_prec = 64, mp_val = 1069028584064966747859680373161870783255\<rparr>)"
  by code_simp

lemma log2_loop_run:
  "map_option agm_a
     (agm_loop fx_limb (mpf_class_d_prec fx_limb 2 64)
        (div_2exp fx_limb (mpf_class_copy fx_limb (mpf_class_d_prec fx_limb 1 64)) 64) 10
        (log2_init fx_limb 64))
   = Some \<lparr>mp_prec = 64, mp_val = 24098159949985591519348255297182643772\<rparr>"
  by code_simp

lemma log2_prec_run:
  "const_log2_prec fx_limb 10 64
     = Some (Inr \<lparr>mp_prec = 64, mp_val = 235865763225513294186783534335751413327\<rparr>)"
proof -
  obtain s where s: "agm_loop fx_limb (mpf_class_d_prec fx_limb 2 64)
        (div_2exp fx_limb (mpf_class_copy fx_limb (mpf_class_d_prec fx_limb 1 64)) 64) 10
        (log2_init fx_limb 64) = Some s"
    and a: "agm_a s = \<lparr>mp_prec = 64, mp_val = 24098159949985591519348255297182643772\<rparr>"
    using log2_loop_run by (auto simp: map_option_eq_Some)
  have fin: "assign fx_limb (mpf_class_copy fx_limb (mpf_class_d_prec fx_limb 0 64))
       (operator_div fx_limb \<lparr>mp_prec = 64, mp_val = 1069028584064966747859680373161870783255\<rparr>
          (operator_mul fx_limb (mpf_class_ui_prec fx_limb 64 64)
             \<lparr>mp_prec = 64, mp_val = 24098159949985591519348255297182643772\<rparr>))
     = \<lparr>mp_prec = 64, mp_val = 235865763225513294186783534335751413327\<rparr>"
    by code_simp
  show ?thesis
    unfolding const_log2_prec_eq [OF fx_limb_grant_64] s pi_prec_run
    using a fin by simp
qed

lemma exp_body_run:
  "exp_body fx_limb 64 sample_x \<lparr>mp_prec = 64, mp_val = 235865763225513294186783534335751413327\<rparr>
     = Inr \<lparr>mp_prec = 64, mp_val = 9013781176000947350670613728924959377477217550336\<rparr>"
  by code_simp

lemma exp_body_claimed_run:
  "exp_body_claimed fx_limb 64 sample_x \<lparr>mp_prec = 64, mp_val = 235865763225513294186783534335751413327\<rparr>
     = Inr \<lparr>mp_prec = 64, mp_val = 1697441840261409966146723122999463007908\<rparr>"
  by code_simp

lemma exp_run:
  "exp_mpf fx_limb 10 64 sample_x
     = Some (Inr \<lparr>mp_prec = 64, mp_val = 9013781176000947350670613728924959377477217550336\<rparr>)"
  by (simp add: exp_mpf_def get_prec_eq sample_x_def [THEN arg_cong, of mp_prec] pi_prec_run
      log2_prec_run exp_body_run)

lemma exp_claimed_run:
  "exp_claimed fx_limb 10 64 sample_x
     = Some (Inr \<lparr>mp_prec = 64, mp_val = 1697441840261409966146723122999463007908\<rparr>)"
  by (simp add: exp_claimed_def get_prec_eq sample_x_def [THEN arg_cong, of mp_prec] pi_prec_run
      log2_prec_run exp_body_claimed_run)

subsection \<open>The claim\<close>

text \<open>
  C7, as it holds. In exact arithmetic \<open>exp(x)\<close>, for \<open>x\<close> of precision \<open>p\<close>, is
  \<open>exp_exact\<close>: with \<open>y = |x|\<close> and \<open>k\<close> the binary exponent of \<open>y\<close>, when \<open>k > 0\<close> both
  \<open>y\<close> and the \<open>log 2\<close> of \<open>const_log2(p)\<close> are divided by \<open>2^k\<close>,
  \<open>n = floor((y/2^k) / (log2/2^k))\<close>, \<open>r = y/2^k - n (log2/2^k)\<close> and \<open>l = p/k\<close>;
  otherwise \<open>k = 0\<close>, \<open>n = 0\<close>, \<open>r = y\<close> and \<open>l = p\<close>. The recurrence
  \<open>E_i = 1 + r E_{i+1} / i\<close> runs for \<open>i\<close> from \<open>l\<close> down to 1 from \<open>E_{l+1} = 1\<close>, which
  gives the Taylor polynomial of degree \<open>l\<close> at \<open>r\<close>; the result is squared \<open>k\<close> times,
  multiplied by \<open>2^n\<close>, and inverted when \<open>x < 0\<close>; it has precision \<open>p\<close>. For every
  engine and every \<open>x\<close> whose precision the engine grants as it is, \<open>exp(x)\<close> returns
  exactly when \<open>const_pi(p)\<close> and \<open>const_log2(p)\<close> return, no assertion fails, and a
  value that is returned has precision \<open>p\<close>.
\<close>

theorem exp_range_reduction_and_recurrence:
  fixes E :: "'v engine" and x :: "'v mpf_class" and y :: "real mpf_class"
  shows "exp_mpf exact_engine fuel dp y =
           map_option (map_sum id (\<lambda>v. \<lparr>mp_prec = get_prec y, mp_val = v\<rparr>))
             (exp_exact fuel (get_prec y) (mp_val y))
       \<and> taylor_back r l 1 = (\<Sum>j\<le>l. r ^ j / fact j)
       \<and> (prec_granted E x \<longrightarrow>
            (exp_mpf E fuel dp x = None
               \<longleftrightarrow> const_pi_prec E fuel (get_prec x) = None \<or> const_log2_prec E fuel (get_prec x) = None)
          \<and> (\<forall>e. exp_mpf E fuel dp x = Some (Inl e) \<longrightarrow> e = Signed_overflow)
          \<and> (\<forall>res. exp_mpf E fuel dp x = Some (Inr res) \<longrightarrow> get_prec res = get_prec x))"
  using exp_mpf_exact [of fuel dp y] taylor_back_series [of r l] exp_mpf_shape [of E x fuel dp]
  by blast

theorem exp_range_reduction_and_recurrence_witness:
  "prec_granted fx_limb sample_x
   \<and> const_pi_prec fx_limb 10 (get_prec sample_x) \<noteq> None
   \<and> const_log2_prec fx_limb 10 (get_prec sample_x) \<noteq> None
   \<and> map_option (map_sum id get_prec) (exp_mpf fx_limb 10 64 sample_x) = Some (Inr 64)
   \<and> map_option (map_sum id (get_si fx_limb)) (exp_mpf fx_limb 10 64 sample_x) = Some (Inr 26489122129)"
proof -
  have g: "prec_granted fx_limb sample_x"
    by (simp add: prec_granted_def sample_x_def fx_limb_grant_64)
  have p: "get_prec sample_x = 64"
    by (simp add: get_prec_eq sample_x_def)
  have i: "get_si fx_limb \<lparr>mp_prec = 64, mp_val = 9013781176000947350670613728924959377477217550336\<rparr>
            = 26489122129"
    by code_simp
  note t = exp_range_reduction_and_recurrence [where E = fx_limb and x = sample_x and fuel = 10
      and dp = 64 and y = "\<lparr>mp_prec = 64, mp_val = 0\<rparr>" and r = 0 and l = 0]
  from t have "prec_granted fx_limb sample_x \<longrightarrow>
            (exp_mpf fx_limb 10 64 sample_x = None
               \<longleftrightarrow> const_pi_prec fx_limb 10 (get_prec sample_x) = None
                   \<or> const_log2_prec fx_limb 10 (get_prec sample_x) = None)
          \<and> (\<forall>e. exp_mpf fx_limb 10 64 sample_x = Some (Inl e) \<longrightarrow> e = Signed_overflow)
          \<and> (\<forall>res. exp_mpf fx_limb 10 64 sample_x = Some (Inr res) \<longrightarrow> get_prec res = get_prec sample_x)"
    by (elim conjE)
  with g have c: "(exp_mpf fx_limb 10 64 sample_x = None
               \<longleftrightarrow> const_pi_prec fx_limb 10 (get_prec sample_x) = None
                   \<or> const_log2_prec fx_limb 10 (get_prec sample_x) = None)"
    and d: "\<forall>res. exp_mpf fx_limb 10 64 sample_x = Some (Inr res) \<longrightarrow> get_prec res = get_prec sample_x"
    by simp_all
  from c exp_run have n: "const_pi_prec fx_limb 10 (get_prec sample_x) \<noteq> None"
      "const_log2_prec fx_limb 10 (get_prec sample_x) \<noteq> None"
    by simp_all
  from d exp_run have q: "get_prec (\<lparr>mp_prec = 64, mp_val = 9013781176000947350670613728924959377477217550336\<rparr>
        :: int mpf_class) = get_prec sample_x"
    by simp
  show ?thesis
    using g n q p i exp_run by simp
qed

text \<open>
  C7, as stated, fails. For \<open>x = 24\<close> at precision 64 on the limb engine, \<open>k = 5\<close>:
  the program finds \<open>n = 34\<close>, the floor of \<open>24 / log 2\<close>, where the quotient of
  \<open>24/2^5\<close> by \<open>log 2\<close> itself has floor 1; and one pass of the recurrence from
  \<open>E = 1\<close> with \<open>r = 1/2\<close> gives \<open>1 + r/1 = 3/2\<close>, not \<open>1 + r/2 = 5/4\<close>. The program
  returns a number whose integer part is 26489122129, that of \<open>e^24\<close>; the
  reduction and the recurrence as the specification words them return one whose
  integer part is 4.
\<close>

theorem exp_as_worded_counterexample:
  "const_log2_prec fx_limb 10 64
     = Some (Inr \<lparr>mp_prec = 64, mp_val = 235865763225513294186783534335751413327\<rparr>)
   \<and> red_n (exp_reduce fx_limb 64 64 \<lparr>mp_prec = 64, mp_val = 0\<rparr> sample_x
        \<lparr>mp_prec = 64, mp_val = 235865763225513294186783534335751413327\<rparr>) = 34
   \<and> red_n (exp_reduce_claimed fx_limb 64 64 \<lparr>mp_prec = 64, mp_val = 0\<rparr> sample_x
        \<lparr>mp_prec = 64, mp_val = 235865763225513294186783534335751413327\<rparr>) = 1
   \<and> exp_taylor fx_limb 64 \<lparr>mp_prec = 64, mp_val = 2 ^ 128\<rparr> \<lparr>mp_prec = 64, mp_val = 2 ^ 127\<rparr> 1
        \<lparr>mp_prec = 64, mp_val = 2 ^ 128\<rparr> = \<lparr>mp_prec = 64, mp_val = 3 * 2 ^ 127\<rparr>
   \<and> exp_taylor_claimed fx_limb 64 \<lparr>mp_prec = 64, mp_val = 2 ^ 128\<rparr> \<lparr>mp_prec = 64, mp_val = 2 ^ 127\<rparr> 1
        \<lparr>mp_prec = 64, mp_val = 2 ^ 128\<rparr> = \<lparr>mp_prec = 64, mp_val = 5 * 2 ^ 126\<rparr>
   \<and> map_option (map_sum id (get_si fx_limb)) (exp_mpf fx_limb 10 64 sample_x) = Some (Inr 26489122129)
   \<and> map_option (map_sum id (get_si fx_limb)) (exp_claimed fx_limb 10 64 sample_x) = Some (Inr 4)"
proof -
  have 1: "red_n (exp_reduce fx_limb 64 64 \<lparr>mp_prec = 64, mp_val = 0\<rparr> sample_x
        \<lparr>mp_prec = 64, mp_val = 235865763225513294186783534335751413327\<rparr>) = 34"
    by code_simp
  have 2: "red_n (exp_reduce_claimed fx_limb 64 64 \<lparr>mp_prec = 64, mp_val = 0\<rparr> sample_x
        \<lparr>mp_prec = 64, mp_val = 235865763225513294186783534335751413327\<rparr>) = 1"
    by code_simp
  have 3: "exp_taylor fx_limb 64 \<lparr>mp_prec = 64, mp_val = 2 ^ 128\<rparr> \<lparr>mp_prec = 64, mp_val = 2 ^ 127\<rparr> 1
        \<lparr>mp_prec = 64, mp_val = 2 ^ 128\<rparr> = \<lparr>mp_prec = 64, mp_val = 3 * 2 ^ 127\<rparr>"
    by code_simp
  have 4: "exp_taylor_claimed fx_limb 64 \<lparr>mp_prec = 64, mp_val = 2 ^ 128\<rparr> \<lparr>mp_prec = 64, mp_val = 2 ^ 127\<rparr> 1
        \<lparr>mp_prec = 64, mp_val = 2 ^ 128\<rparr> = \<lparr>mp_prec = 64, mp_val = 5 * 2 ^ 126\<rparr>"
    by code_simp
  have 5: "get_si fx_limb \<lparr>mp_prec = 64, mp_val = 9013781176000947350670613728924959377477217550336\<rparr>
            = 26489122129"
    by code_simp
  have 6: "get_si fx_limb \<lparr>mp_prec = 64, mp_val = 1697441840261409966146723122999463007908\<rparr> = 4"
    by code_simp
  have 7: "map_option (map_sum id (get_si fx_limb)) (exp_mpf fx_limb 10 64 sample_x) = Some (Inr 26489122129)"
    by (simp add: exp_run 5)
  have 8: "map_option (map_sum id (get_si fx_limb)) (exp_claimed fx_limb 10 64 sample_x) = Some (Inr 4)"
    by (simp add: exp_claimed_run 6)
  from log2_prec_run 1 2 3 4 7 8 show ?thesis by (intro conjI)
qed

section \<open>Copy assignment\<close>

lemma limb_trunc_fits:
  assumes "limb_count 64 \<bar>m\<bar> \<le> limbs_kept p"
  shows "e_set (fx_engine g S) p m = m"
  using assms by (simp add: fx_engine_def fx_set_def limb_trunc_def cut_limbs_def)

text \<open>
  C2, as it holds. Copy assignment \<open>x = y\<close> in standard mode leaves the precision of
  \<open>x\<close> as it was, whatever the precision of \<open>y\<close>. The value of \<open>x\<close> becomes what the
  engine's \<open>mpf_set\<close> stores of the value of \<open>y\<close> in a variable of that precision: it
  depends on nothing else, neither on the precision of \<open>y\<close> nor on what \<open>x\<close> held. When
  \<open>y\<close> is \<open>x\<close> itself nothing is done. How much of \<open>y\<close> is kept is the engine's affair;
  the limb engine, as GMP, keeps one limb more than the limbs of the precision, and so
  every value that fits in them as it is.
\<close>

theorem copy_assignment_keeps_precision:
  assumes "prec_granted E x"
    and "same \<longrightarrow> y = x"
  shows "get_prec (operator_assign E same x y) = get_prec x
       \<and> (\<not> same \<longrightarrow> mp_val (operator_assign E same x y) = e_set E (get_prec x) (mp_val y))
       \<and> (same \<longrightarrow> operator_assign E same x y = x)
       \<and> (\<not> same \<and> get_prec x' = get_prec x \<and> mp_val y' = mp_val y
            \<longrightarrow> operator_assign E same x' y' = operator_assign E same x y)
       \<and> (limb_count 64 \<bar>m\<bar> \<le> limbs_kept p \<longrightarrow> e_set (fx_engine g S) p m = m)"
  using assms limb_trunc_fits [of m p g S]
  by (auto simp: operator_assign_def mpf_set_def mpf_init2_def get_prec_def mpf_get_prec_def
      prec_granted_def)

theorem copy_assignment_keeps_precision_witness:
  "prec_granted fx_limb \<lparr>mp_prec = 64, mp_val = 3 * 2 ^ 128\<rparr>
   \<and> limb_count 64 \<bar>5 * 2 ^ 128\<bar> \<le> limbs_kept 64
   \<and> operator_assign fx_limb False
         \<lparr>mp_prec = 64, mp_val = 3 * 2 ^ 128\<rparr> \<lparr>mp_prec = 128, mp_val = 5 * 2 ^ 128\<rparr>
       = \<lparr>mp_prec = 64, mp_val = 5 * 2 ^ 128\<rparr>
   \<and> operator_assign fx_limb True
         \<lparr>mp_prec = 64, mp_val = 3 * 2 ^ 128\<rparr> \<lparr>mp_prec = 64, mp_val = 3 * 2 ^ 128\<rparr>
       = \<lparr>mp_prec = 64, mp_val = 3 * 2 ^ 128\<rparr>"
proof -
  let ?x = "\<lparr>mp_prec = 64, mp_val = 3 * 2 ^ 128\<rparr> :: int mpf_class"
  let ?y = "\<lparr>mp_prec = 128, mp_val = 5 * 2 ^ 128\<rparr> :: int mpf_class"
  have a: "prec_granted fx_limb ?x"
    by (simp add: prec_granted_def fx_limb_def fx_engine_def limb_grant_def)
  have f: "limb_count 64 \<bar>5 * 2 ^ 128\<bar> \<le> limbs_kept 64"
    by code_simp
  note t = copy_assignment_keeps_precision [where E = fx_limb and x = ?x and same = False and y = ?y
      and x' = ?x and y' = ?y and m = "5 * 2 ^ 128" and p = 64 and g = limb_grant and S = 128]
  note u = copy_assignment_keeps_precision [where E = fx_limb and x = ?x and same = True and y = ?x
      and x' = ?x and y' = ?x and m = "5 * 2 ^ 128" and p = 64 and g = limb_grant and S = 128]
  have 1: "operator_assign fx_limb False ?x ?y = \<lparr>mp_prec = 64, mp_val = 5 * 2 ^ 128\<rparr>"
    by (rule mpf_eqI) (use t a f in \<open>simp_all add: get_prec_eq fx_limb_def\<close>)
  have 2: "operator_assign fx_limb True ?x ?x = ?x"
    using u a by simp
  from a f 1 2 show ?thesis by (intro conjI)
qed

text \<open>
  C2, as stated, fails: the value is not rounded to \<open>p\<close> bits. On the limb engine, as
  under GMP, a variable of precision 64 holds three limbs, and assigning
  \<open>1 + 2^(-128)\<close> to it leaves \<open>1 + 2^(-128)\<close> there, a number of 129 significant bits.
\<close>

theorem copy_assignment_rounding_counterexample:
  "operator_assign fx_limb False
       \<lparr>mp_prec = 64, mp_val = 3 * 2 ^ 128\<rparr> \<lparr>mp_prec = 128, mp_val = 2 ^ 128 + 1\<rparr>
     = \<lparr>mp_prec = 64, mp_val = 2 ^ 128 + 1\<rparr>
   \<and> \<not> fits_bits 64 (2 ^ 128 + 1)
   \<and> fits_bits 64 (2 ^ 128)"
  by code_simp


end
